theory Spec2Isabelle
  imports Complex_Main
begin

section \<open>JavaScript values\<close>

subsection \<open>Numbers\<close>

text \<open>
  A JavaScript \<^verbatim>\<open>number\<close> is an IEEE 754 binary64 value: a finite double (kept as
  the real it denotes), one of the two infinities, or \<^verbatim>\<open>NaN\<close>.  Every arithmetic
  operation computes the exact result and rounds it to the nearest double, ties to the
  even significand.  The sign of zero is not modelled; no expression of the code
  divides by a negative zero.
\<close>

datatype number = Num real | PosInf | NegInf | NaN

definition pow2 :: "int \<Rightarrow> real" where
  "pow2 e = (if 0 \<le> e then 2 ^ nat e else 1 / 2 ^ nat (- e))"

text \<open>
  A positive real \<open>x\<close> is brought to the form \<open>y * 2 ^ e\<close> with \<open>2 ^ 52 \<le> y < 2 ^ 53\<close>:
  \<open>y\<close> rounded to an integer is the 53-bit significand and \<open>2 ^ e\<close> the spacing of the
  doubles around \<open>x\<close>.  The exponent stops at \<open>-1074\<close>, the spacing of the subnormal
  doubles, and at \<open>972\<close>, beyond the largest double.
\<close>

function halve :: "real \<Rightarrow> int \<Rightarrow> real \<times> int" where
  "halve x e = (if 2 ^ 53 \<le> x \<and> e < 972 then halve (x / 2) (e + 1) else (x, e))"
  by pat_completeness auto
termination
  by (relation "measure (\<lambda>(x, e). nat (972 - e))") auto

function twice :: "real \<Rightarrow> int \<Rightarrow> real \<times> int" where
  "twice x e = (if x < 2 ^ 52 \<and> - 1074 < e then twice (2 * x) (e - 1) else (x, e))"
  by pat_completeness auto
termination
  by (relation "measure (\<lambda>(x, e). nat (e + 1074))") auto

definition roundHalfEven :: "real \<Rightarrow> int" where
  "roundHalfEven y =
     (let f = \<lfloor>y\<rfloor>; r = y - of_int f
      in if r < 1 / 2 then f
         else if 1 / 2 < r then f + 1
         else if even f then f else f + 1)"

definition doublePos :: "real \<Rightarrow> number" where
  "doublePos x =
     (let (y, e) = halve x 0
      in if 2 ^ 53 \<le> y then PosInf
         else (let (z, e) = twice y e;
                   v = of_int (roundHalfEven z) * pow2 e
               in if 2 ^ 1024 \<le> v then PosInf else Num v))"

fun num_neg :: "number \<Rightarrow> number" where
  "num_neg (Num a) = Num (- a)"
| "num_neg PosInf = NegInf"
| "num_neg NegInf = PosInf"
| "num_neg NaN = NaN"

text \<open>
  \<open>double x\<close> is the double nearest to the real \<open>x\<close>: the value of a decimal literal
  of the source, and the result of an operation whose exact value is \<open>x\<close>.
\<close>

definition double :: "real \<Rightarrow> number" where
  "double x =
     (if x = 0 then Num 0
      else if x < 0 then num_neg (doublePos (- x))
      else doublePos x)"

fun num_add :: "number \<Rightarrow> number \<Rightarrow> number" where
  "num_add NaN _ = NaN"
| "num_add _ NaN = NaN"
| "num_add (Num a) (Num b) = double (a + b)"
| "num_add PosInf NegInf = NaN"
| "num_add NegInf PosInf = NaN"
| "num_add PosInf _ = PosInf"
| "num_add _ PosInf = PosInf"
| "num_add NegInf _ = NegInf"
| "num_add _ NegInf = NegInf"

definition num_sub :: "number \<Rightarrow> number \<Rightarrow> number" where
  "num_sub a b = num_add a (num_neg b)"

fun inf_times :: "bool \<Rightarrow> real \<Rightarrow> number" where
  "inf_times positive a =
     (if a = 0 then NaN else if (0 < a) = positive then PosInf else NegInf)"

fun num_mul :: "number \<Rightarrow> number \<Rightarrow> number" where
  "num_mul NaN _ = NaN"
| "num_mul _ NaN = NaN"
| "num_mul (Num a) (Num b) = double (a * b)"
| "num_mul (Num a) PosInf = inf_times True a"
| "num_mul (Num a) NegInf = inf_times False a"
| "num_mul PosInf (Num b) = inf_times True b"
| "num_mul NegInf (Num b) = inf_times False b"
| "num_mul PosInf PosInf = PosInf"
| "num_mul NegInf NegInf = PosInf"
| "num_mul PosInf NegInf = NegInf"
| "num_mul NegInf PosInf = NegInf"

text \<open>
  Division.  A zero divisor is \<^verbatim>\<open>+0\<close> (every divisor in the code is an array length
  or a sum guarded to be positive): \<^verbatim>\<open>0/0\<close> is \<^verbatim>\<open>NaN\<close>, \<^verbatim>\<open>x/0\<close> is an infinity.
\<close>

fun num_div :: "number \<Rightarrow> number \<Rightarrow> number" where
  "num_div NaN _ = NaN"
| "num_div _ NaN = NaN"
| "num_div (Num a) (Num b) =
     (if b \<noteq> 0 then double (a / b)
      else if a = 0 then NaN
      else if 0 < a then PosInf else NegInf)"
| "num_div (Num a) PosInf = Num 0"
| "num_div (Num a) NegInf = Num 0"
| "num_div PosInf (Num b) = (if 0 \<le> b then PosInf else NegInf)"
| "num_div NegInf (Num b) = (if 0 \<le> b then NegInf else PosInf)"
| "num_div PosInf PosInf = NaN"
| "num_div PosInf NegInf = NaN"
| "num_div NegInf PosInf = NaN"
| "num_div NegInf NegInf = NaN"

text \<open>An array length, or any integer below \<open>2 ^ 53\<close>, is a double as it stands.\<close>

definition of_length :: "nat \<Rightarrow> number" where
  "of_length n = Num (real n)"

fun Math_min :: "number \<Rightarrow> number \<Rightarrow> number" where
  "Math_min NaN _ = NaN"
| "Math_min _ NaN = NaN"
| "Math_min (Num a) (Num b) = Num (min a b)"
| "Math_min NegInf _ = NegInf"
| "Math_min _ NegInf = NegInf"
| "Math_min PosInf b = b"
| "Math_min a PosInf = a"

text \<open>
  \<^verbatim>\<open>Math.round\<close> is exact: the integer nearest to its argument, ties towards
  \<open>+\<infinity>\<close>.
\<close>

fun Math_round :: "number \<Rightarrow> number" where
  "Math_round (Num x) = Num (of_int \<lfloor>x + 1 / 2\<rfloor>)"
| "Math_round PosInf = PosInf"
| "Math_round NegInf = NegInf"
| "Math_round NaN = NaN"

text \<open>Comparisons are exact; every comparison with \<^verbatim>\<open>NaN\<close> is false.\<close>

fun num_lt :: "number \<Rightarrow> number \<Rightarrow> bool" where
  "num_lt NaN _ = False"
| "num_lt _ NaN = False"
| "num_lt (Num a) (Num b) = (a < b)"
| "num_lt _ NegInf = False"
| "num_lt PosInf _ = False"
| "num_lt NegInf _ = True"
| "num_lt _ PosInf = True"

definition num_gt :: "number \<Rightarrow> number \<Rightarrow> bool" where
  "num_gt a b = num_lt b a"

fun num_ge :: "number \<Rightarrow> number \<Rightarrow> bool" where
  "num_ge NaN _ = False"
| "num_ge _ NaN = False"
| "num_ge a b = (\<not> num_lt a b)"

subsection \<open>Strings\<close>

text \<open>
  The scoring engine and the parser lower-case their text, so their strings are
  modelled as \<^typ>\<open>string\<close>: a list of UTF-16 code units below 256 (Latin-1), on which
  the case mapping, the white space class and \<^verbatim>\<open>length\<close> are exactly JavaScript's.
  Text with code units above 255 is outside this model.
\<close>

definition lowerCode :: "char \<Rightarrow> char" where
  "lowerCode c =
     (let n = (of_char c :: nat) in
      if (65 \<le> n \<and> n \<le> 90) \<or> (192 \<le> n \<and> n \<le> 214) \<or> (216 \<le> n \<and> n \<le> 222)
      then char_of (n + 32) else c)"

definition toLowerCase :: "string \<Rightarrow> string" where
  "toLowerCase s = map lowerCode s"

text \<open>White space and line terminators below 256: TAB, LF, VT, FF, CR, SP, NBSP.\<close>

definition isWhiteSpace :: "char \<Rightarrow> bool" where
  "isWhiteSpace c =
     (let n = (of_char c :: nat) in (9 \<le> n \<and> n \<le> 13) \<or> n = 32 \<or> n = 160)"

definition trim :: "string \<Rightarrow> string" where
  "trim s = rev (dropWhile isWhiteSpace (rev (dropWhile isWhiteSpace s)))"

fun startsWith :: "'a list \<Rightarrow> 'a list \<Rightarrow> bool" where
  "startsWith _ [] = True"
| "startsWith [] (p # ps) = False"
| "startsWith (x # xs) (p # ps) = (x = p \<and> startsWith xs ps)"

text \<open>\<^verbatim>\<open>s.includes(p)\<close> on strings: \<open>p\<close> occurs in \<open>s\<close> as a contiguous run.\<close>

fun includes_str :: "'a list \<Rightarrow> 'a list \<Rightarrow> bool" where
  "includes_str [] p = (p = [])"
| "includes_str (x # xs) p = (startsWith (x # xs) p \<or> includes_str xs p)"

fun join :: "'a list \<Rightarrow> 'a list list \<Rightarrow> 'a list" where
  "join sep [] = []"
| "join sep [x] = x"
| "join sep (x # y # ys) = x @ sep @ join sep (y # ys)"

section \<open>The skill scan of the parser (resume-parser.ts)\<close>

definition commonSkills :: "string list" where
  "commonSkills =
     [''JavaScript'', ''TypeScript'', ''Python'', ''Java'', ''C++'', ''C#'', ''Ruby'', ''PHP'',
      ''Go'', ''Rust'', ''Swift'', ''Kotlin'',
      ''React'', ''Angular'', ''Vue'', ''Next.js'', ''Node.js'', ''Express'', ''Django'',
      ''Flask'', ''Spring Boot'',
      ''HTML'', ''CSS'', ''SASS'', ''LESS'', ''Tailwind CSS'', ''Bootstrap'',
      ''PostgreSQL'', ''MySQL'', ''MongoDB'', ''Redis'', ''Elasticsearch'', ''DynamoDB'',
      ''Oracle'', ''SQL Server'',
      ''AWS'', ''Azure'', ''GCP'', ''Docker'', ''Kubernetes'', ''Jenkins'', ''GitLab CI'',
      ''GitHub Actions'',
      ''Terraform'', ''Ansible'', ''CI/CD'',
      ''Git'', ''REST API'', ''GraphQL'', ''Microservices'', ''Agile'', ''Scrum'', ''JIRA'',
      ''Linux'',
      ''Machine Learning'', ''TensorFlow'', ''PyTorch'', ''AI'', ''NLP'', ''Data Science'']"

text \<open>
  A JavaScript \<^verbatim>\<open>Set\<close> of strings keeps insertion order and ignores an element it
  already holds; \<^verbatim>\<open>Array.from\<close> lists it in that order.
\<close>

definition set_add :: "string \<Rightarrow> string list \<Rightarrow> string list" where
  "set_add x xs = (if x \<in> set xs then xs else xs @ [x])"

text \<open>
  The first phase of \<^verbatim>\<open>extractSkills\<close> (three section patterns with lookahead, each
  match cut up by \<^verbatim>\<open>extractSkillsFromText\<close>) enters as the parameter
  \<open>sectionSkills\<close>: the skills it adds for a content, in order.  The second phase, the
  scan of the whole content for the well-known skills, is modelled as written.
\<close>

definition extractSkills :: "(string \<Rightarrow> string list) \<Rightarrow> string \<Rightarrow> string list" where
  "extractSkills sectionSkills content =
     (let skills = fold set_add (sectionSkills content) [];
          lowerContent = toLowerCase content
      in fold (\<lambda>skill skills.
                 (let skillLower = toLowerCase skill
                  in if includes_str lowerContent skillLower then set_add skill skills
                     else skills))
              commonSkills skills)"

section \<open>The scoring engine (ats-engine.ts)\<close>

record ResumeData =
  content :: string
  skills :: "string list"
  experience :: "string list"
  education :: "string list"
  projects :: "string list"

text \<open>
  In \<^verbatim>\<open>JobDescriptionData\<close> the field \<^verbatim>\<open>keywords\<close> is written \<open>keywords_list\<close>
  (\<open>keywords\<close> is reserved) and the optional field \<^verbatim>\<open>experience\<close>, which no function
  reads, is written \<open>experienceLevel\<close>.
\<close>

record JobDescriptionData =
  description :: string
  requiredSkills :: "string list"
  preferredSkills :: "string list"
  keywords_list :: "string list"
  experienceLevel :: "string option"

record ATSScoreResult =
  overallScore :: number
  skillsScore :: number
  experienceScore :: number
  keywordScore :: number
  formattingScore :: number
  matchedSkills :: "string list"
  missingSkills :: "string list"
  matchedKeywords :: "string list"
  missingKeywords :: "string list"
  suggestions :: "string list"

text \<open>The weights are the doubles that the decimal literals of the source denote.\<close>

record Weights =
  w_skills :: number
  w_experience :: number
  w_keywords :: number
  w_formatting :: number

definition WEIGHTS :: Weights where
  "WEIGHTS =
     \<lparr>w_skills = double 0.40, w_experience = double 0.30, w_keywords = double 0.20,
      w_formatting = double 0.10\<rparr>"

subsection \<open>Skill normalisation and matching\<close>

text \<open>
  The class \<^verbatim>\<open>[^a-z0-9\s+#.]\<close> under the flags \<^verbatim>\<open>gi\<close>: a code unit is removed unless
  it is an ASCII letter of either case, a digit, white space, \<^verbatim>\<open>+\<close>, \<^verbatim>\<open>#\<close> or \<^verbatim>\<open>.\<close>.
\<close>

definition keptInSkill :: "char \<Rightarrow> bool" where
  "keptInSkill c =
     (let n = (of_char c :: nat) in
      (97 \<le> n \<and> n \<le> 122) \<or> (65 \<le> n \<and> n \<le> 90) \<or> (48 \<le> n \<and> n \<le> 57)
      \<or> isWhiteSpace c \<or> n = 43 \<or> n = 35 \<or> n = 46)"

definition normalizeSkills :: "string list \<Rightarrow> string list" where
  "normalizeSkills ss = map (\<lambda>skill. filter keptInSkill (trim (toLowerCase skill))) ss"

text \<open>
  \<^verbatim>\<open>natural.LevenshteinDistance(s1, s2)\<close> is a routine of the third-party package
  \<^verbatim>\<open>natural\<close>; called without options it is the edit distance with unit costs for
  insertion, deletion and substitution.
\<close>

fun levenshtein :: "'a list \<Rightarrow> 'a list \<Rightarrow> nat" where
  "levenshtein [] ys = length ys"
| "levenshtein (x # xs) [] = Suc (length xs)"
| "levenshtein (x # xs) (y # ys) =
     min (min (levenshtein xs (y # ys) + 1) (levenshtein (x # xs) ys + 1))
         (levenshtein xs ys + (if x = y then 0 else 1))"

definition variations :: "(string \<times> string list) list" where
  "variations =
    [(''javascript'', [''js'', ''javascript'', ''ecmascript'']),
     (''typescript'', [''ts'', ''typescript'']),
     (''python'', [''py'', ''python'']),
     (''react'', [''reactjs'', ''react.js'', ''react'']),
     (''node'', [''nodejs'', ''node.js'', ''node'']),
     (''mongodb'', [''mongo'', ''mongodb'']),
     (''postgresql'', [''postgres'', ''postgresql'', ''psql'']),
     (''aws'', [''amazon web services'', ''aws'']),
     (''gcp'', [''google cloud platform'', ''gcp'', ''google cloud'']),
     (''ci/cd'', [''cicd'', ''ci/cd'', ''continuous integration''])]"

text \<open>
  The last step compares \<^verbatim>\<open>1 - distance / maxLength\<close> with the double 0.85, in double
  arithmetic.  It is reached with \<open>maxLength = 0\<close> by no input (two empty strings are
  equal); there \<^verbatim>\<open>0/0\<close> is \<^verbatim>\<open>NaN\<close> and the comparison is false.
\<close>

definition skillsMatch :: "string \<Rightarrow> string \<Rightarrow> bool" where
  "skillsMatch skill1 skill2 =
     (let s1 = trim (toLowerCase skill1);
          s2 = trim (toLowerCase skill2)
      in if s1 = s2 then True
         else if includes_str s1 s2 \<or> includes_str s2 s1 then True
         else if list_ex (\<lambda>(key, variants). s1 \<in> set variants \<and> s2 \<in> set variants) variations
         then True
         else (let distance = levenshtein s1 s2;
                   maxLength = max (length s1) (length s2);
                   similarity =
                     num_sub (Num 1) (num_div (of_length distance) (of_length maxLength))
               in num_gt similarity (double 0.85)))"

subsection \<open>Skill loops\<close>

text \<open>\<^verbatim>\<open>resumeSkills.some(resumeSkill => skillsMatch(resumeSkill, jobSkill))\<close>\<close>

definition someMatch :: "string list \<Rightarrow> string \<Rightarrow> bool" where
  "someMatch resumeSkills jobSkill =
     list_ex (\<lambda>resumeSkill. skillsMatch resumeSkill jobSkill) resumeSkills"

text \<open>The loop over the required skills, on the pair \<open>(matched, missing)\<close>.\<close>

fun requiredLoop ::
  "string list \<Rightarrow> string list \<Rightarrow> string list \<times> string list \<Rightarrow> string list \<times> string list"
where
  "requiredLoop resumeSkills [] (matched, missing) = (matched, missing)"
| "requiredLoop resumeSkills (jobSkill # rest) (matched, missing) =
     (if someMatch resumeSkills jobSkill
      then requiredLoop resumeSkills rest (matched @ [jobSkill], missing)
      else requiredLoop resumeSkills rest (matched, missing @ [jobSkill]))"

text \<open>The loop over the preferred skills, on the pair \<open>(preferredMatched, matched)\<close>.\<close>

fun preferredLoop ::
  "string list \<Rightarrow> string list \<Rightarrow> nat \<times> string list \<Rightarrow> nat \<times> string list"
where
  "preferredLoop resumeSkills [] (preferredMatched, matched) = (preferredMatched, matched)"
| "preferredLoop resumeSkills (prefSkill # rest) (preferredMatched, matched) =
     (if someMatch resumeSkills prefSkill
      then preferredLoop resumeSkills rest
             (preferredMatched + 1,
              if prefSkill \<in> set matched then matched else matched @ [prefSkill])
      else preferredLoop resumeSkills rest (preferredMatched, matched))"

subsection \<open>Keyword loop\<close>

text \<open>
  Each keyword is spliced into a pattern: \<^verbatim>\<open>new RegExp(`\\b${keyword}\\b`, 'gi')\<close>.
  The regular expression engine enters as a parameter: \<open>re keyword text\<close> is \<open>None\<close>
  when the constructor throws \<^verbatim>\<open>SyntaxError\<close> (the keyword is not a valid pattern,
  as \<^verbatim>\<open>c++\<close>), and \<open>Some n\<close> when \<^verbatim>\<open>text.match(regex)\<close> finds \<open>n\<close> matches
  (\<open>n = 0\<close> for \<^verbatim>\<open>null\<close>).
\<close>

type_synonym regexp = "string \<Rightarrow> string \<Rightarrow> nat option"

datatype error = SyntaxError

text \<open>The loop over the keywords, on the triple \<open>(matched, missing, densityScore)\<close>.\<close>

fun keywordLoop ::
  "regexp \<Rightarrow> string \<Rightarrow> string list \<Rightarrow> string list \<times> string list \<times> nat
     \<Rightarrow> error + string list \<times> string list \<times> nat"
where
  "keywordLoop re resumeText [] (matched, missing, densityScore) =
     Inr (matched, missing, densityScore)"
| "keywordLoop re resumeText (keyword # rest) (matched, missing, densityScore) =
     (case re keyword resumeText of
        None \<Rightarrow> Inl SyntaxError
      | Some n \<Rightarrow>
          if n > 0
          then keywordLoop re resumeText rest
                 (matched @ [keyword], missing, densityScore + min (n * 5) 15)
          else keywordLoop re resumeText rest (matched, missing @ [keyword], densityScore))"

subsection \<open>Analysis records and the component functions\<close>

text \<open>
  The analysis objects returned by the component functions.  Skills and keywords share
  the shape \<^verbatim>\<open>{score, matched, missing}\<close>; the fields of the other two are prefixed, as
  a record field name is global.
\<close>

record MatchAnalysis =
  score :: number
  matched :: "string list"
  missing :: "string list"

record ExperienceAnalysis =
  exp_score :: number
  relevantTerms :: "string list"
  exp_matched :: "string list"

record FormattingAnalysis =
  fmt_score :: number
  issues :: "string list"

definition calculateSkillsScore :: "ResumeData \<Rightarrow> JobDescriptionData \<Rightarrow> MatchAnalysis" where
  "calculateSkillsScore resume jobDescription =
     (let resumeSkills = normalizeSkills (skills resume);
          required = normalizeSkills (requiredSkills jobDescription);
          preferred = normalizeSkills (preferredSkills jobDescription);
          (matched0, missing) = requiredLoop resumeSkills required ([], []);
          (preferredMatched, matched) = preferredLoop resumeSkills preferred (0, matched0);
          requiredMatchRatio =
            (if length required > 0
             then num_div (of_length (length (filter (\<lambda>s. s \<in> set required) matched)))
                    (of_length (length required))
             else Num 0);
          preferredBonus =
            (if length preferred > 0
             then num_mul (num_div (of_length preferredMatched) (of_length (length preferred)))
                    (Num 20)
             else Num 0)
      in \<lparr>score =
            Math_min (Num 100) (num_add (num_mul requiredMatchRatio (Num 80)) preferredBonus),
          matched = matched, missing = missing\<rparr>)"

subsection \<open>Experience score\<close>

text \<open>
  The TF-IDF model is the third-party class \<^verbatim>\<open>natural.TfIdf\<close>.  It enters as a
  parameter: \<open>listTerms experienceText description\<close> is the result of
  \<^verbatim>\<open>listTerms(1)\<close> after the two \<^verbatim>\<open>addDocument\<close> calls, the terms of the job
  description with their weights (doubles), in the order the package returns them.
\<close>

type_synonym tfidf = "string \<Rightarrow> string \<Rightarrow> (string \<times> real) list"

definition calculateExperienceScore ::
  "tfidf \<Rightarrow> ResumeData \<Rightarrow> JobDescriptionData \<Rightarrow> ExperienceAnalysis"
where
  "calculateExperienceScore listTerms resume jobDescription =
     (let jobTerms =
            filter (\<lambda>(term, w). length term > 3)
              (listTerms (join '' '' (experience resume)) (description jobDescription));
          resumeText = toLowerCase (content resume);
          (matchCount, totalWeight) =
            fold (\<lambda>(term, w) (matchCount, totalWeight).
                    (if includes_str resumeText (toLowerCase term)
                     then num_add matchCount (Num w) else matchCount,
                     num_add totalWeight (Num w)))
                 (take 20 jobTerms) (Num 0, Num 0);
          score =
            (if num_gt totalWeight (Num 0)
             then num_mul (num_div matchCount totalWeight) (Num 100)
             else Num 0)
      in \<lparr>exp_score = score,
          relevantTerms = map fst (take 10 jobTerms),
          exp_matched =
            map fst (filter (\<lambda>(term, w). includes_str resumeText (toLowerCase term)) jobTerms)\<rparr>)"

subsection \<open>Keyword score\<close>

definition calculateKeywordScore ::
  "regexp \<Rightarrow> ResumeData \<Rightarrow> JobDescriptionData \<Rightarrow> error + MatchAnalysis"
where
  "calculateKeywordScore re resume jobDescription =
     (let resumeText = toLowerCase (content resume);
          keywords = map toLowerCase (keywords_list jobDescription)
      in case keywordLoop re resumeText keywords ([], [], 0) of
           Inl e \<Rightarrow> Inl e
         | Inr state \<Rightarrow>
             (let (matched, missing, densityScore) = state;
                  matchRatio =
                    (if length keywords > 0
                     then num_div (of_length (length matched)) (of_length (length keywords))
                     else Num 0)
              in Inr \<lparr>score =
                        Math_min (Num 100)
                          (num_add (num_mul matchRatio (Num 70))
                             (num_mul
                                (num_div (of_length densityScore)
                                   (of_length (length keywords)))
                                (Num 30))),
                      matched = matched, missing = missing\<rparr>))"

subsection \<open>Formatting score\<close>

definition actionWords :: "string list" where
  "actionWords =
     [''achieved'', ''managed'', ''led'', ''developed'', ''created'',
      ''improved'', ''increased'', ''decreased'', ''implemented'',
      ''designed'', ''built'', ''established'', ''launched'']"

definition calculateFormattingScore :: "ResumeData \<Rightarrow> FormattingAnalysis" where
  "calculateFormattingScore resume =
     (let (score, issues) = (100 :: int, [] :: string list);
          (score, issues) =
            (if length (content resume) < 500
             then (score - 20, issues @ [''Resume content is too short''])
             else (score, issues));
          hasSkills = length (skills resume) > 0;
          hasExperience = length (experience resume) > 0;
          hasEducation = length (education resume) > 0;
          (score, issues) =
            (if \<not> hasSkills
             then (score - 30, issues @ [''Missing skills section''])
             else (score, issues));
          (score, issues) =
            (if \<not> hasExperience
             then (score - 30, issues @ [''Missing experience section''])
             else (score, issues));
          (score, issues) =
            (if \<not> hasEducation
             then (score - 20, issues @ [''Missing education section''])
             else (score, issues));
          hasActionWords =
            list_ex (\<lambda>word. includes_str (toLowerCase (content resume)) word) actionWords;
          (score, issues) =
            (if \<not> hasActionWords
             then (score - 10, issues @ [''Lacks strong action verbs''])
             else (score, issues))
      in \<lparr>fmt_score = Num (of_int (max 0 score)), issues = issues\<rparr>)"

subsection \<open>Suggestions and the overall score\<close>

definition generateSuggestions ::
  "MatchAnalysis \<Rightarrow> ExperienceAnalysis \<Rightarrow> MatchAnalysis \<Rightarrow> FormattingAnalysis \<Rightarrow> string list"
where
  "generateSuggestions skillsAnalysis experienceAnalysis keywordAnalysis formattingAnalysis =
     (let suggestions = [] :: string list;
          suggestions =
            (if num_lt (score skillsAnalysis) (Num 70) \<and> length (missing skillsAnalysis) > 0
             then suggestions @
                    [''Add these critical skills: '' @
                       join '', '' (take 5 (missing skillsAnalysis))]
             else suggestions);
          suggestions =
            (if num_lt (exp_score experienceAnalysis) (Num 60)
             then suggestions @
                    [''Expand your experience descriptions to include more relevant keywords and achievements'']
             else suggestions);
          suggestions =
            (if num_lt (score keywordAnalysis) (Num 70) \<and> length (missing keywordAnalysis) > 0
             then suggestions @
                    [''Include these important keywords: '' @
                       join '', '' (take 5 (missing keywordAnalysis))]
             else suggestions);
          suggestions =
            (if length (issues formattingAnalysis) > 0
             then suggestions @
                    map (\<lambda>issue. ''Formatting: '' @ issue) (issues formattingAnalysis)
             else suggestions);
          suggestions =
            (if num_ge (score skillsAnalysis) (Num 80) \<and> num_ge (score keywordAnalysis) (Num 80)
             then suggestions @
                    [''Excellent keyword optimization! Consider quantifying your achievements with metrics.'']
             else suggestions)
      in suggestions)"

definition calculateATSScore ::
  "regexp \<Rightarrow> tfidf \<Rightarrow> ResumeData \<Rightarrow> JobDescriptionData \<Rightarrow> error + ATSScoreResult"
where
  "calculateATSScore re listTerms resume jobDescription =
     (let skillsAnalysis = calculateSkillsScore resume jobDescription;
          experienceAnalysis = calculateExperienceScore listTerms resume jobDescription
      in case calculateKeywordScore re resume jobDescription of
           Inl e \<Rightarrow> Inl e
         | Inr keywordAnalysis \<Rightarrow>
             (let formattingAnalysis = calculateFormattingScore resume;
                  overallScore =
                    Math_round
                      (num_add
                         (num_add
                            (num_add
                               (num_mul (score skillsAnalysis) (w_skills WEIGHTS))
                               (num_mul (exp_score experienceAnalysis)
                                  (w_experience WEIGHTS)))
                            (num_mul (score keywordAnalysis) (w_keywords WEIGHTS)))
                         (num_mul (fmt_score formattingAnalysis) (w_formatting WEIGHTS)));
                  suggestions =
                    generateSuggestions skillsAnalysis experienceAnalysis keywordAnalysis
                      formattingAnalysis
              in Inr \<lparr>overallScore = overallScore,
                      skillsScore = Math_round (score skillsAnalysis),
                      experienceScore = Math_round (exp_score experienceAnalysis),
                      keywordScore = Math_round (score keywordAnalysis),
                      formattingScore = Math_round (fmt_score formattingAnalysis),
                      matchedSkills = matched skillsAnalysis,
                      missingSkills = missing skillsAnalysis,
                      matchedKeywords = matched keywordAnalysis,
                      missingKeywords = missing keywordAnalysis,
                      suggestions = suggestions\<rparr>))"

section \<open>Bullet-point analysis (ai-analysis.ts)\<close>

text \<open>
  This module never maps case on the text itself; it tests code units against fixed
  sets, one of them the bullet U+2022.  Its text is therefore a list of UTF-16 code
  units, \<^typ>\<open>nat list\<close>, and the model is exact on every JavaScript string.
\<close>

type_synonym utf16 = "nat list"

definition units :: "string \<Rightarrow> utf16" where
  "units s = map of_char s"

record ContactInfo =
  email :: "utf16 option"
  phone :: "utf16 option"
  linkedin :: "utf16 option"
  github :: "utf16 option"

text \<open>
  The interface \<^verbatim>\<open>ParsedResume\<close>.  Its fields carry the prefix \<open>p_\<close>: the names
  \<open>content\<close>, \<open>skills\<close>, \<dots> are the fields of \<^typ>\<open>ResumeData\<close>.
\<close>

record ParsedResume =
  p_content :: utf16
  p_skills :: "utf16 list"
  p_experience :: "utf16 list"
  p_education :: "utf16 list"
  p_projects :: "utf16 list"
  p_contactInfo :: "ContactInfo option"

text \<open>
  The class \<^verbatim>\<open>\s\<close> (white space and line terminators), the line terminators after
  which \<^verbatim>\<open>^\<close> holds under the flag \<^verbatim>\<open>m\<close>, and the class \<^verbatim>\<open>[\<bullet>\-*]\<close>.
\<close>

definition isSpaceUnit :: "nat \<Rightarrow> bool" where
  "isSpaceUnit n =
     ((9 \<le> n \<and> n \<le> 13) \<or> n = 32 \<or> n = 160 \<or> n = 5760 \<or> (8192 \<le> n \<and> n \<le> 8202)
      \<or> n = 8232 \<or> n = 8233 \<or> n = 8239 \<or> n = 8287 \<or> n = 12288 \<or> n = 65279)"

definition isLineTerminator :: "nat \<Rightarrow> bool" where
  "isLineTerminator n = (n = 10 \<or> n = 13 \<or> n = 8232 \<or> n = 8233)"

definition isBulletUnit :: "nat \<Rightarrow> bool" where
  "isBulletUnit n = (n = 8226 \<or> n = 45 \<or> n = 42)"

definition trimUnits :: "utf16 \<Rightarrow> utf16" where
  "trimUnits s = rev (dropWhile isSpaceUnit (rev (dropWhile isSpaceUnit s)))"

text \<open>\<^verbatim>\<open>content.split('\n')\<close>: the empty string gives one empty line.\<close>

fun splitLines :: "utf16 \<Rightarrow> utf16 list" where
  "splitLines [] = [[]]"
| "splitLines (c # cs) =
     (if c = 10 then [] # splitLines cs
      else (case splitLines cs of
              l # ls \<Rightarrow> (c # l) # ls
            | [] \<Rightarrow> [[c]]))"

text \<open>
  One attempt of \<^verbatim>\<open>[\s]*[\<bullet>\-*]\s+\<close> at the head of the text.  Both repetitions are
  greedy and no shorter repetition can succeed where the longest fails, since the
  bullet class and \<^verbatim>\<open>\s\<close> are disjoint.  A success returns whether the last code
  unit consumed is a line terminator, and the rest of the text.
\<close>

definition bulletMatch :: "utf16 \<Rightarrow> (bool \<times> utf16) option" where
  "bulletMatch xs =
     (case dropWhile isSpaceUnit xs of
        [] \<Rightarrow> None
      | b # ys \<Rightarrow>
          if isBulletUnit b \<and> takeWhile isSpaceUnit ys \<noteq> []
          then Some (isLineTerminator (last (takeWhile isSpaceUnit ys)),
                     dropWhile isSpaceUnit ys)
          else None)"

lemma bulletMatch_shorter:
  "bulletMatch xs = Some (lt, rest) \<Longrightarrow> length rest < length xs"
proof -
  assume m: "bulletMatch xs = Some (lt, rest)"
  then obtain b ys where d: "dropWhile isSpaceUnit xs = b # ys"
    and r: "rest = dropWhile isSpaceUnit ys"
    by (auto simp: bulletMatch_def split: list.splits if_splits)
  have "length rest \<le> length ys"
    unfolding r by (rule length_dropWhile_le)
  moreover have "length (b # ys) \<le> length xs"
    unfolding d [symmetric] by (rule length_dropWhile_le)
  ultimately show ?thesis by simp
qed

text \<open>
  The number of matches of \<^verbatim>\<open>/^[\s]*[\<bullet>\-*]\s+/gm\<close>: the text is scanned from the
  left; \<open>atLineStart\<close> says whether \<^verbatim>\<open>^\<close> holds at the current position; after a
  match the scan goes on behind it.
\<close>

function countBulletMatches :: "bool \<Rightarrow> utf16 \<Rightarrow> nat" where
  "countBulletMatches atLineStart [] = 0"
| "countBulletMatches atLineStart (c # cs) =
     (if atLineStart
      then (case bulletMatch (c # cs) of
              Some (lt, rest) \<Rightarrow> 1 + countBulletMatches lt rest
            | None \<Rightarrow> countBulletMatches (isLineTerminator c) cs)
      else countBulletMatches (isLineTerminator c) cs)"
  by pat_completeness auto
termination
  by (relation "measure (\<lambda>(atLineStart, xs). length xs)")
     (auto dest: bulletMatch_shorter)

text \<open>
  \<^verbatim>\<open>/(?:w1|w2|...)/gi.test(content)\<close> for ASCII words: under the flag \<^verbatim>\<open>i\<close> a code
  unit of the text equals an ASCII letter of the pattern exactly when its ASCII
  lower-case form does (no code unit above 127 is folded onto an ASCII letter).
\<close>

definition asciiLower :: "nat \<Rightarrow> nat" where
  "asciiLower n = (if 65 \<le> n \<and> n \<le> 90 then n + 32 else n)"

definition testWords :: "string list \<Rightarrow> utf16 \<Rightarrow> bool" where
  "testWords ws input =
     list_ex (\<lambda>w. includes_str (map asciiLower input) (units w)) ws"

record BulletAnalysis =
  bp_score :: number
  feedback :: "string list"

definition analyzeBulletPoints :: "ParsedResume \<Rightarrow> BulletAnalysis" where
  "analyzeBulletPoints resume =
     (let (feedback, score) = ([] :: string list, 100 :: int);
          content = join [10] (p_experience resume);
          bulletPoints = countBulletMatches True content;
          (feedback, score) =
            (if bulletPoints < 3
             then (feedback @ [''Add bullet points to structure your experience''], score - 30)
             else (feedback, score));
          hasContext = testWords [''led'', ''managed'', ''coordinated'', ''oversaw''] content;
          hasAction =
            testWords [''developed'', ''created'', ''implemented'', ''designed'', ''built'']
              content;
          hasResult =
            testWords [''increased'', ''decreased'', ''improved'', ''reduced'', ''achieved'']
              content;
          (feedback, score) =
            (if \<not> hasAction
             then (feedback @
                     [''Include strong action verbs at the start of each bullet point''],
                   score - 25)
             else (feedback, score));
          (feedback, score) =
            (if \<not> hasResult
             then (feedback @
                     [''Add measurable results and outcomes to your accomplishments''],
                   score - 25)
             else (feedback, score));
          (feedback, score) =
            (if \<not> hasContext
             then (feedback @ [''Provide context about your role and responsibilities''],
                   score - 10)
             else (feedback, score));
          lines =
            filter (\<lambda>l. startsWith (trimUnits l) [45] \<or> startsWith (trimUnits l) [8226])
              (splitLines content);
          tooLong = filter (\<lambda>l. length l > 150) lines;
          tooShort = filter (\<lambda>l. length l < 30) lines;
          (feedback, score) =
            (if length tooLong > 0
             then (feedback @ [''Some bullet points are too long - aim for 1-2 lines each''],
                   score - 10)
             else (feedback, score));
          (feedback, score) =
            (if real (length tooShort) > real (length lines) / 2
             then (feedback @
                     [''Many bullet points lack detail - expand with specific achievements''],
                   score - 10)
             else (feedback, score))
      in \<lparr>bp_score = Num (of_int (max 0 score)), feedback = feedback\<rparr>)"

section \<open>Example inputs\<close>

text \<open>
  An instance of the regular expression engine for the examples.  For a keyword made
  of word characters only (\<^verbatim>\<open>[A-Za-z0-9_]+\<close>) the pattern \<^verbatim>\<open>\bkeyword\b\<close> under
  \<^verbatim>\<open>gi\<close> matches exactly the maximal runs of word characters of the text that equal
  the keyword up to case.  The examples use such keywords only; on any other keyword
  this instance answers \<open>None\<close>.
\<close>

definition isWordChar :: "char \<Rightarrow> bool" where
  "isWordChar c =
     (let n = (of_char c :: nat) in
      (97 \<le> n \<and> n \<le> 122) \<or> (65 \<le> n \<and> n \<le> 90) \<or> (48 \<le> n \<and> n \<le> 57) \<or> n = 95)"

fun wordRuns :: "string \<Rightarrow> string \<Rightarrow> string list" where
  "wordRuns run [] = (if run = [] then [] else [run])"
| "wordRuns run (c # cs) =
     (if isWordChar c then wordRuns (run @ [c]) cs
      else if run = [] then wordRuns [] cs
      else run # wordRuns [] cs)"

definition wordRegExp :: regexp where
  "wordRegExp keyword input =
     (if keyword \<noteq> [] \<and> list_all isWordChar keyword
      then Some (length (filter (\<lambda>w. w = toLowerCase keyword)
                          (wordRuns [] (toLowerCase input))))
      else None)"

text \<open>
  The answer of \<^verbatim>\<open>natural.TfIdf\<close> for the two documents of the examples, an empty
  experience text and the description \<^verbatim>\<open>kubernetes and docker\<close>: the terms
  \<^verbatim>\<open>kubernetes\<close> and \<^verbatim>\<open>docker\<close>, each of weight 1 (one occurrence, in one of two
  documents); \<^verbatim>\<open>and\<close> is a stop word.  No other documents occur in the examples.
\<close>

definition sampleTerms :: tfidf where
  "sampleTerms experienceText jobText =
     (if experienceText = [] \<and> jobText = ''kubernetes and docker''
      then [(''kubernetes'', 1), (''docker'', 1)]
      else [])"

definition sampleResume :: ResumeData where
  "sampleResume =
     \<lparr>content = ''docker'', skills = [''React''], experience = [], education = [],
      projects = []\<rparr>"

definition sampleJob :: JobDescriptionData where
  "sampleJob =
     \<lparr>description = ''kubernetes and docker'',
      requiredSkills = [''React'', ''AWS'', ''GCP''], preferredSkills = [],
      keywords_list = [''Docker'', ''Kubernetes'', ''Terraform'', ''Ansible'', ''Jenkins''],
      experienceLevel = None\<rparr>"

text \<open>The scenario of the specification: two skills, two required, one preferred.\<close>

definition scenarioResume :: ResumeData where
  "scenarioResume =
     \<lparr>content = [], skills = [''React'', ''Node.js''], experience = [], education = [],
      projects = []\<rparr>"

definition scenarioJob :: JobDescriptionData where
  "scenarioJob =
     \<lparr>description = [], requiredSkills = [''React'', ''AWS''],
      preferredSkills = [''Docker''], keywords_list = [], experienceLevel = None\<rparr>"

text \<open>The result of the engine on the sample input.\<close>

definition sampleResult :: ATSScoreResult where
  "sampleResult =
     \<lparr>overallScore = Num 36, skillsScore = Num 27, experienceScore = Num 50,
      keywordScore = Num 44, formattingScore = Num 20,
      matchedSkills = [''react''], missingSkills = [''aws'', ''gcp''],
      matchedKeywords = [''docker''],
      missingKeywords = [''kubernetes'', ''terraform'', ''ansible'', ''jenkins''],
      suggestions =
        [''Add these critical skills: aws, gcp'',
         ''Expand your experience descriptions to include more relevant keywords and achievements'',
         ''Include these important keywords: kubernetes, terraform, ansible, jenkins'',
         ''Formatting: Resume content is too short'',
         ''Formatting: Missing experience section'',
         ''Formatting: Missing education section'',
         ''Formatting: Lacks strong action verbs'']\<rparr>"

text \<open>A job whose preferred skill is on the resume.\<close>

definition preferredResume :: ResumeData where
  "preferredResume =
     \<lparr>content = ''docker'', skills = [''React'', ''Docker''], experience = [],
      education = [], projects = []\<rparr>"

definition preferredJob :: JobDescriptionData where
  "preferredJob =
     \<lparr>description = ''kubernetes and docker'',
      requiredSkills = [''React''], preferredSkills = [''Docker''],
      keywords_list = [''Docker''], experienceLevel = None\<rparr>"

text \<open>
  An input whose weighted sum is \<open>44.5\<close> in exact arithmetic and
  \<^verbatim>\<open>44.49999999999999\<close> in doubles: two of three required skills, one of the two
  terms, one of twelve keywords found twice.
\<close>

definition tieResume :: ResumeData where
  "tieResume =
     \<lparr>content = ''docker docker'', skills = [''React'', ''AWS''], experience = [],
      education = [], projects = []\<rparr>"

definition tieJob :: JobDescriptionData where
  "tieJob =
     \<lparr>description = ''kubernetes and docker'',
      requiredSkills = [''React'', ''AWS'', ''GCP''], preferredSkills = [],
      keywords_list =
        [''Docker'', ''Kubernetes'', ''Terraform'', ''Ansible'', ''Jenkins'', ''Python'',
         ''Golang'', ''Rust'', ''Java'', ''Scala'', ''Linux'', ''Redis''],
      experienceLevel = None\<rparr>"





text \<open>
  Experience sections for the bullet-point analysis: three bullets with action and
  context cues but no result cue, and three bullets without any cue, two of them
  short and one of 152 code units.
\<close>

definition leadResume :: ParsedResume where
  "leadResume =
     \<lparr>p_content = [], p_skills = [],
      p_experience =
        [units ''- developed and led the billing platform team'',
         units ''- created and managed the release pipeline work'',
         units ''- designed and coordinated the data migration''],
      p_education = [], p_projects = [], p_contactInfo = None\<rparr>"

definition terseResume :: ParsedResume where
  "terseResume =
     \<lparr>p_content = [], p_skills = [],
      p_experience =
        [units ''-x'', units ''-y'',
         units (''-'' @ ''zzzzzzzzzzzzzzzzzzzzzzzzzzzzzzzzzzzzzzzzzzzzzzzzzz'' @
                ''zzzzzzzzzzzzzzzzzzzzzzzzzzzzzzzzzzzzzzzzzzzzzzzzzz'' @
                ''zzzzzzzzzzzzzzzzzzzzzzzzzzzzzzzzzzzzzzzzzzzzzzzzzz'' @ ''z'')],
      p_education = [], p_projects = [], p_contactInfo = None\<rparr>"

text \<open>A parser whose section patterns find nothing.\<close>

definition noSections :: "string \<Rightarrow> string list" where
  "noSections input = []"

section \<open>The bullet score as the specification words it\<close>

text \<open>
  The specification lists the penalties of the bullet score as 25 for missing action
  cues, 10 for missing result cues and 25 for missing context cues.  This definition
  follows those words, on the recognisers of the code, for comparison with
  \<^const>\<open>analyzeBulletPoints\<close>.
\<close>

definition specBulletScore :: "ParsedResume \<Rightarrow> int" where
  "specBulletScore resume =
     (let content = join [10] (p_experience resume);
          lines =
            filter (\<lambda>l. startsWith (trimUnits l) [45] \<or> startsWith (trimUnits l) [8226])
              (splitLines content)
      in max 0
           (100
            - (if countBulletMatches True content < 3 then 30 else 0)
            - (if testWords [''developed'', ''created'', ''implemented'', ''designed'', ''built'']
                    content then 0 else 25)
            - (if testWords [''increased'', ''decreased'', ''improved'', ''reduced'', ''achieved'']
                    content then 0 else 10)
            - (if testWords [''led'', ''managed'', ''coordinated'', ''oversaw''] content
               then 0 else 25)
            - (if 0 < length (filter (\<lambda>l. length l > 150) lines) then 10 else 0)
            - (if real (length (filter (\<lambda>l. length l < 30) lines)) > real (length lines) / 2
               then 10 else 0)))"

section \<open>Properties of skill matching\<close>

text \<open>
  Evaluation of \<^const>\<open>double\<close> on a literal: the simplifier unfolds the two scaling
  loops and decides the comparisons by rational arithmetic.
\<close>

lemmas double_eval =
  double_def doublePos_def halve.simps twice.simps roundHalfEven_def pow2_def Let_def

lemma levenshtein_sym: "levenshtein xs ys = levenshtein ys xs"
proof (induction xs ys rule: levenshtein.induct)
  case (1 ys)
  then show ?case by (cases ys) simp_all
next
  case (2 x xs)
  then show ?case by simp
next
  case (3 x xs y ys)
  then show ?case by (simp add: min.commute min.left_commute eq_commute)
qed

lemma variations_sym:
  "list_ex (\<lambda>(key, variants). s \<in> set variants \<and> t \<in> set variants) variations
   = list_ex (\<lambda>(key, variants). t \<in> set variants \<and> s \<in> set variants) variations"
  by (simp add: conj_commute)

lemma skillsMatch_iff:
  "skillsMatch a b \<longleftrightarrow>
     (trim (toLowerCase a) = trim (toLowerCase b)
      \<or> includes_str (trim (toLowerCase a)) (trim (toLowerCase b))
      \<or> includes_str (trim (toLowerCase b)) (trim (toLowerCase a))
      \<or> list_ex (\<lambda>(key, variants). trim (toLowerCase a) \<in> set variants
                     \<and> trim (toLowerCase b) \<in> set variants) variations
      \<or> num_gt
           (num_sub (Num 1)
              (num_div (of_length (levenshtein (trim (toLowerCase a)) (trim (toLowerCase b))))
                 (of_length
                    (max (length (trim (toLowerCase a))) (length (trim (toLowerCase b)))))))
           (double 0.85))"
  unfolding skillsMatch_def Let_def by simp

lemma skillsMatch_sym: "skillsMatch a b = skillsMatch b a"
proof -
  define s where "s = trim (toLowerCase a)"
  define t where "t = trim (toLowerCase b)"
  have 1: "list_ex (\<lambda>(key, variants). s \<in> set variants \<and> t \<in> set variants) variations
         = list_ex (\<lambda>(key, variants). t \<in> set variants \<and> s \<in> set variants) variations"
    by (rule variations_sym)
  have 2: "levenshtein s t = levenshtein t s"
    by (rule levenshtein_sym)
  have 3: "max (length s) (length t) = max (length t) (length s)"
    by (rule max.commute)
  show ?thesis
    unfolding skillsMatch_iff s_def [symmetric] t_def [symmetric] 1 2 3
    by blast
qed

lemma not_similar:
  "\<not> num_gt (num_sub (Num 1) (num_div (of_length 6) (of_length 6))) (double 0.85)"
  "\<not> num_gt (num_sub (Num 1) (num_div (of_length 3) (of_length 3))) (double 0.85)"
  "\<not> num_gt (num_sub (Num 1) (num_div (of_length 4) (of_length 5))) (double 0.85)"
  "\<not> num_gt (num_sub (Num 1) (num_div (of_length 6) (of_length 7))) (double 0.85)"
  by (simp_all add: num_gt_def num_sub_def of_length_def double_eval)

lemma skillsMatch_far:
  assumes "trim (toLowerCase a) = s \<and> trim (toLowerCase b) = t \<and> s \<noteq> t
           \<and> \<not> includes_str s t \<and> \<not> includes_str t s
           \<and> \<not> list_ex (\<lambda>(key, variants). s \<in> set variants \<and> t \<in> set variants) variations
           \<and> levenshtein s t = d \<and> max (length s) (length t) = m"
    and "\<not> num_gt (num_sub (Num 1) (num_div (of_length d) (of_length m))) (double 0.85)"
  shows "\<not> skillsMatch a b"
  using assms unfolding skillsMatch_iff by simp

lemma skillsMatch_same: "skillsMatch a a"
  unfolding skillsMatch_iff by simp

lemma python_java: "\<not> skillsMatch ''Python'' ''Java''"
  by (rule skillsMatch_far [where s = "''python''" and t = "''java''" and d = 6 and m = 6])
     (code_simp, rule not_similar)

lemma js: "skillsMatch ''JavaScript'' ''js''"
proof -
  have "trim (toLowerCase ''JavaScript'') = ''javascript'' \<and> trim (toLowerCase ''js'') = ''js''"
    by code_simp
  then show ?thesis
    unfolding skillsMatch_iff by (simp add: variations_def)
qed

lemma reactjs: "skillsMatch ''Reactjs'' ''React''"
proof -
  have "includes_str (trim (toLowerCase ''Reactjs'')) (trim (toLowerCase ''React''))"
    by code_simp
  then show ?thesis
    unfolding skillsMatch_iff by simp
qed

lemma postgres: "skillsMatch ''postgres'' ''postgresql''"
proof -
  have "includes_str (trim (toLowerCase ''postgresql'')) (trim (toLowerCase ''postgres''))"
    by code_simp
  then show ?thesis
    unfolding skillsMatch_iff by simp
qed

lemma far_pairs:
  "\<not> skillsMatch ''react'' ''aws''"
  "\<not> skillsMatch ''node.js'' ''aws''"
  "\<not> skillsMatch ''react'' ''docker''"
  "\<not> skillsMatch ''node.js'' ''docker''"
  "\<not> skillsMatch ''react'' ''gcp''"
  "\<not> skillsMatch ''aws'' ''gcp''"
  by (rule skillsMatch_far [where s = "''react''" and t = "''aws''" and d = 4 and m = 5],
      code_simp, rule not_similar,
      rule skillsMatch_far [where s = "''node.js''" and t = "''aws''" and d = 6 and m = 7],
      code_simp, rule not_similar,
      rule skillsMatch_far [where s = "''react''" and t = "''docker''" and d = 6 and m = 6],
      code_simp, rule not_similar,
      rule skillsMatch_far [where s = "''node.js''" and t = "''docker''" and d = 6 and m = 7],
      code_simp, rule not_similar,
      rule skillsMatch_far [where s = "''react''" and t = "''gcp''" and d = 4 and m = 5],
      code_simp, rule not_similar,
      rule skillsMatch_far [where s = "''aws''" and t = "''gcp''" and d = 3 and m = 3],
      code_simp, rule not_similar)

text \<open>
  C6.  \<^verbatim>\<open>skillsMatch\<close> is symmetric, and it accepts JavaScript/js (synonym table),
  Reactjs/React and postgres/postgresql (substring rule) and rejects Python/Java
  (edit distance 6 of 6).
\<close>

theorem skillsMatch_symmetric_and_examples:
  "(\<forall>a b. skillsMatch a b = skillsMatch b a)
   \<and> skillsMatch ''JavaScript'' ''js''
   \<and> \<not> skillsMatch ''Python'' ''Java''
   \<and> skillsMatch ''Reactjs'' ''React''
   \<and> skillsMatch ''postgres'' ''postgresql''"
proof -
  have sym: "\<forall>a b. skillsMatch a b = skillsMatch b a"
    using skillsMatch_sym by blast
  from sym js python_java reactjs postgres show ?thesis by blast
qed

theorem skillsMatch_symmetric_witness:
  "skillsMatch ''js'' ''JavaScript'' \<and> \<not> skillsMatch ''Java'' ''Python''"
  using skillsMatch_symmetric_and_examples by blast

lemma skills_eval:
  assumes "normalizeSkills (skills resume) = rs \<and> normalizeSkills (requiredSkills job) = req
           \<and> normalizeSkills (preferredSkills job) = pref"
    and "requiredLoop rs req ([], []) = (m0, mis)"
    and "preferredLoop rs pref (0, m0) = (pm, m)"
  shows "calculateSkillsScore resume job =
     \<lparr>score =
        Math_min (Num 100)
          (num_add
             (num_mul
                (if length req > 0
                 then num_div (of_length (length (filter (\<lambda>s. s \<in> set req) m)))
                        (of_length (length req))
                 else Num 0)
                (Num 80))
             (if length pref > 0
              then num_mul (num_div (of_length pm) (of_length (length pref))) (Num 20)
              else Num 0)),
      matched = m, missing = mis\<rparr>"
  using assms by (simp add: calculateSkillsScore_def Let_def)

lemma scenario_skills_eval:
  "calculateSkillsScore scenarioResume scenarioJob
   = \<lparr>score = Num 40, matched = [''react''], missing = [''aws'']\<rparr>"
proof -
  have norm: "normalizeSkills (skills scenarioResume) = [''react'', ''node.js'']
      \<and> normalizeSkills (requiredSkills scenarioJob) = [''react'', ''aws'']
      \<and> normalizeSkills (preferredSkills scenarioJob) = [''docker'']"
    by code_simp
  have req: "requiredLoop [''react'', ''node.js''] [''react'', ''aws''] ([], [])
      = ([''react''], [''aws''])"
    by (simp add: someMatch_def skillsMatch_same far_pairs)
  have pref: "preferredLoop [''react'', ''node.js''] [''docker''] (0, [''react''])
      = (0, [''react''])"
    by (simp add: someMatch_def far_pairs)
  show ?thesis
    unfolding skills_eval [OF norm req pref]
    by (simp add: of_length_def double_eval)
qed

text \<open>
  C7 (as the code has it).  On the scenario the skills score is \<open>(1/2) * 80 + 0 = 40\<close>,
  and the two lists hold the normalised, lower-case skills: matched is \<^verbatim>\<open>["react"]\<close>
  and missing is \<^verbatim>\<open>["aws"]\<close>.
\<close>

theorem scenario_skills_score:
  "calculateSkillsScore scenarioResume scenarioJob
   = \<lparr>score = Num 40, matched = [''react''], missing = [''aws'']\<rparr>"
  by (rule scenario_skills_eval)

theorem scenario_skills_score_witness:
  "score (calculateSkillsScore scenarioResume scenarioJob) = Num ((1 / 2) * 80 + 0 * 20)
   \<and> skills scenarioResume = [''React'', ''Node.js'']
   \<and> requiredSkills scenarioJob = [''React'', ''AWS'']
   \<and> preferredSkills scenarioJob = [''Docker'']"
  using scenario_skills_score by (simp add: scenarioResume_def scenarioJob_def)

text \<open>
  C7 as stated fails: the lists do not hold the skills in their input spelling
  \<^verbatim>\<open>"React"\<close> and \<^verbatim>\<open>"AWS"\<close>.
\<close>

theorem scenario_lists_not_input_spelling:
  "matched (calculateSkillsScore scenarioResume scenarioJob) \<noteq> [''React'']
   \<and> missing (calculateSkillsScore scenarioResume scenarioJob) \<noteq> [''AWS'']"
  by (simp add: scenario_skills_eval)

section \<open>Properties of the scoring engine\<close>

subsection \<open>The loops and the result record\<close>

lemma requiredLoop_filter:
  "requiredLoop rs req (m, mi) =
     (m @ filter (someMatch rs) req, mi @ filter (\<lambda>s. \<not> someMatch rs s) req)"
  by (induction req arbitrary: m mi) simp_all

lemma preferredLoop_extra:
  "\<exists>extra. preferredLoop rs pref (n, m) = (n + length (filter (someMatch rs) pref), m @ extra)
     \<and> distinct extra
     \<and> set extra = {s \<in> set pref. someMatch rs s \<and> s \<notin> set m}"
proof (induction pref arbitrary: n m)
  case Nil
  then show ?case by simp
next
  case (Cons p pref)
  show ?case
  proof (cases "someMatch rs p")
    case False
    with Cons.IH [of n m] show ?thesis by auto
  next
    case hit: True
    show ?thesis
    proof (cases "p \<in> set m")
      case True
      with hit Cons.IH [of "n + 1" m] show ?thesis by auto
    next
      case False
      from Cons.IH [of "n + 1" "m @ [p]"] obtain extra where
        e: "preferredLoop rs pref (n + 1, m @ [p])
              = (n + 1 + length (filter (someMatch rs) pref), (m @ [p]) @ extra)"
        and d: "distinct extra"
        and s: "set extra = {s \<in> set pref. someMatch rs s \<and> s \<notin> set (m @ [p])}"
        by blast
      have "preferredLoop rs (p # pref) (n, m)
              = (n + length (filter (someMatch rs) (p # pref)), m @ (p # extra))"
        using hit False e by simp
      moreover have "distinct (p # extra)" using d s by auto
      moreover have "set (p # extra) = {s \<in> set (p # pref). someMatch rs s \<and> s \<notin> set m}"
        using s hit False by auto
      ultimately show ?thesis by blast
    qed
  qed
qed

lemma skills_lists:
  "\<exists>extra.
     matched (calculateSkillsScore resume job)
       = filter (someMatch (normalizeSkills (skills resume)))
           (normalizeSkills (requiredSkills job)) @ extra
     \<and> distinct extra
     \<and> set extra = {s \<in> set (normalizeSkills (preferredSkills job)).
                     someMatch (normalizeSkills (skills resume)) s
                     \<and> s \<notin> set (normalizeSkills (requiredSkills job))}
     \<and> missing (calculateSkillsScore resume job)
       = filter (\<lambda>s. \<not> someMatch (normalizeSkills (skills resume)) s)
           (normalizeSkills (requiredSkills job))"
proof -
  define rs where "rs = normalizeSkills (skills resume)"
  define req where "req = normalizeSkills (requiredSkills job)"
  define pref where "pref = normalizeSkills (preferredSkills job)"
  from preferredLoop_extra [of rs pref 0 "filter (someMatch rs) req"]
  obtain extra where
    e: "preferredLoop rs pref (0, filter (someMatch rs) req)
          = (0 + length (filter (someMatch rs) pref), filter (someMatch rs) req @ extra)"
    and d: "distinct extra"
    and s: "set extra = {s \<in> set pref. someMatch rs s \<and> s \<notin> set (filter (someMatch rs) req)}"
    by blast
  have s': "set extra = {s \<in> set pref. someMatch rs s \<and> s \<notin> set req}"
    using s by auto
  have m: "matched (calculateSkillsScore resume job) = filter (someMatch rs) req @ extra"
    unfolding calculateSkillsScore_def Let_def rs_def [symmetric] req_def [symmetric]
      pref_def [symmetric]
    by (simp add: requiredLoop_filter e del: preferredLoop.simps)
  have mi: "missing (calculateSkillsScore resume job) = filter (\<lambda>s. \<not> someMatch rs s) req"
    unfolding calculateSkillsScore_def Let_def rs_def [symmetric] req_def [symmetric]
      pref_def [symmetric]
    by (simp add: requiredLoop_filter e del: preferredLoop.simps)
  from m mi d s' show ?thesis
    unfolding rs_def req_def pref_def by blast
qed

lemma keywordLoop_counts:
  assumes "\<forall>k\<in>set ks. re k t \<noteq> None"
  shows "keywordLoop re t ks (m, mi, d) =
           Inr (m @ filter (\<lambda>k. 0 < the (re k t)) ks,
                mi @ filter (\<lambda>k. \<not> 0 < the (re k t)) ks,
                d + sum_list (map (\<lambda>k. min (the (re k t) * 5) 15) ks))"
  using assms
proof (induction ks arbitrary: m mi d)
  case Nil
  then show ?case by simp
next
  case (Cons k ks)
  from Cons.prems obtain n where n: "re k t = Some n" by auto
  from Cons.prems have rest: "\<forall>k\<in>set ks. re k t \<noteq> None" by simp
  show ?case
  proof (cases "0 < n")
    case True
    then show ?thesis
      using n Cons.IH [OF rest, of "m @ [k]" mi "d + min (n * 5) 15"] by simp
  next
    case False
    then show ?thesis
      using n Cons.IH [OF rest, of m "mi @ [k]" d] by simp
  qed
qed

lemma ats_Inr:
  assumes "calculateATSScore re listTerms resume job = Inr result"
  obtains ka where "calculateKeywordScore re resume job = Inr ka"
    and "overallScore result =
           Math_round
             (num_add
                (num_add
                   (num_add
                      (num_mul (score (calculateSkillsScore resume job)) (double 0.40))
                      (num_mul (exp_score (calculateExperienceScore listTerms resume job))
                         (double 0.30)))
                   (num_mul (score ka) (double 0.20)))
                (num_mul (fmt_score (calculateFormattingScore resume)) (double 0.10)))"
    and "matchedSkills result = matched (calculateSkillsScore resume job)"
    and "missingSkills result = missing (calculateSkillsScore resume job)"
    and "suggestions result =
           generateSuggestions (calculateSkillsScore resume job)
             (calculateExperienceScore listTerms resume job) ka
             (calculateFormattingScore resume)"
    and "keywordScore result = Math_round (score ka)"
  using assms
  unfolding calculateATSScore_def Let_def WEIGHTS_def
  by (auto split: sum.splits)

text \<open>
  The engine returns exactly when the regular expression engine accepts every
  keyword; otherwise \<^verbatim>\<open>new RegExp\<close> throws inside the keyword loop.
\<close>

lemma keywordLoop_rejects:
  assumes "k \<in> set ks" and "re k t = None"
  shows "keywordLoop re t ks (m, mi, d) = Inl SyntaxError"
  using assms
proof (induction ks arbitrary: m mi d)
  case Nil
  then show ?case by simp
next
  case (Cons a ks)
  show ?case
  proof (cases "re a t")
    case None
    then show ?thesis by simp
  next
    case (Some n)
    with Cons.prems have "k \<in> set ks" by auto
    from Cons.IH [OF this Cons.prems(2)] Some show ?thesis by simp
  qed
qed

lemma ats_returns_iff:
  "(\<exists>result. calculateATSScore re listTerms resume job = Inr result)
   \<longleftrightarrow> (\<forall>k\<in>set (keywords_list job).
          re (toLowerCase k) (toLowerCase (content resume)) \<noteq> None)"
proof
  assume "\<exists>result. calculateATSScore re listTerms resume job = Inr result"
  then obtain result where "calculateATSScore re listTerms resume job = Inr result" ..
  then obtain ka where ka: "calculateKeywordScore re resume job = Inr ka"
    by (rule ats_Inr)
  show "\<forall>k\<in>set (keywords_list job).
          re (toLowerCase k) (toLowerCase (content resume)) \<noteq> None"
  proof (rule ccontr)
    assume "\<not> (\<forall>k\<in>set (keywords_list job).
          re (toLowerCase k) (toLowerCase (content resume)) \<noteq> None)"
    then obtain k where "toLowerCase k \<in> set (map toLowerCase (keywords_list job))"
      and "re (toLowerCase k) (toLowerCase (content resume)) = None"
      by auto
    then have "keywordLoop re (toLowerCase (content resume))
                 (map toLowerCase (keywords_list job)) ([], [], 0) = Inl SyntaxError"
      by (rule keywordLoop_rejects)
    with ka show False
      unfolding calculateKeywordScore_def Let_def by simp
  qed
next
  assume "\<forall>k\<in>set (keywords_list job).
          re (toLowerCase k) (toLowerCase (content resume)) \<noteq> None"
  then have "\<forall>k\<in>set (map toLowerCase (keywords_list job)).
          re k (toLowerCase (content resume)) \<noteq> None"
    by simp
  from keywordLoop_counts [of "map toLowerCase (keywords_list job)" re
      "toLowerCase (content resume)" "[]" "[]" 0] this
  have "\<exists>st. keywordLoop re (toLowerCase (content resume))
                 (map toLowerCase (keywords_list job)) ([], [], 0) = Inr st"
    by blast
  then show "\<exists>result. calculateATSScore re listTerms resume job = Inr result"
    unfolding calculateATSScore_def calculateKeywordScore_def Let_def
    by (auto split: prod.splits)
qed

lemma ats_returns:
  assumes "\<forall>k\<in>set (keywords_list job).
             re (toLowerCase k) (toLowerCase (content resume)) \<noteq> None"
  shows "\<exists>result. calculateATSScore re listTerms resume job = Inr result"
  using assms unfolding ats_returns_iff .

subsection \<open>Evaluation on the example inputs\<close>

text \<open>
  The component functions with their loops already run: what is left is the arithmetic
  on doubles.
\<close>

lemma keyword_eval:
  assumes "keywordLoop re (toLowerCase (content resume)) (map toLowerCase (keywords_list job))
             ([], [], 0) = Inr (m, mi, d)"
    and "length (keywords_list job) = n"
  shows "calculateKeywordScore re resume job =
     Inr \<lparr>score =
            Math_min (Num 100)
              (num_add
                 (num_mul
                    (if n > 0 then num_div (of_length (length m)) (of_length n) else Num 0)
                    (Num 70))
                 (num_mul (num_div (of_length d) (of_length n)) (Num 30))),
          matched = m, missing = mi\<rparr>"
  using assms by (simp add: calculateKeywordScore_def Let_def)

lemma experience_eval:
  assumes "filter (\<lambda>(tm, w). length tm > 3)
             (listTerms (join '' '' (experience resume)) (description job))
           = [(''kubernetes'', 1), (''docker'', 1)]
         \<and> \<not> includes_str (toLowerCase (content resume)) (toLowerCase ''kubernetes'')
         \<and> includes_str (toLowerCase (content resume)) (toLowerCase ''docker'')"
  shows "exp_score (calculateExperienceScore listTerms resume job) = Num 50"
  using assms
  by (simp add: calculateExperienceScore_def Let_def num_gt_def double_eval)

lemma sample_skills:
  "calculateSkillsScore sampleResume sampleJob
   = \<lparr>score = Num (3752999689475413 / 2 ^ 47), matched = [''react''],
      missing = [''aws'', ''gcp'']\<rparr>"
proof -
  have norm: "normalizeSkills (skills sampleResume) = [''react'']
      \<and> normalizeSkills (requiredSkills sampleJob) = [''react'', ''aws'', ''gcp'']
      \<and> normalizeSkills (preferredSkills sampleJob) = []"
    by code_simp
  have req: "requiredLoop [''react''] [''react'', ''aws'', ''gcp''] ([], [])
      = ([''react''], [''aws'', ''gcp''])"
    by (simp add: someMatch_def skillsMatch_same far_pairs)
  have pref: "preferredLoop [''react''] [] (0, [''react'']) = (0, [''react''])"
    by simp
  show ?thesis
    unfolding skills_eval [OF norm req pref]
    by (simp add: of_length_def double_eval)
qed

lemma sample_experience:
  "exp_score (calculateExperienceScore sampleTerms sampleResume sampleJob) = Num 50"
  by (rule experience_eval) code_simp

lemma sample_keywords:
  "calculateKeywordScore wordRegExp sampleResume sampleJob
     = Inr \<lparr>score = Num 44, matched = [''docker''],
            missing = [''kubernetes'', ''terraform'', ''ansible'', ''jenkins'']\<rparr>"
proof -
  have loop: "keywordLoop wordRegExp (toLowerCase (content sampleResume))
      (map toLowerCase (keywords_list sampleJob)) ([], [], 0)
      = Inr ([''docker''], [''kubernetes'', ''terraform'', ''ansible'', ''jenkins''], 5)"
    by code_simp
  have len: "length (keywords_list sampleJob) = 5"
    by (simp add: sampleJob_def)
  show ?thesis
    unfolding keyword_eval [OF loop len]
    by (simp add: of_length_def double_eval)
qed

lemma sample_formatting:
  "calculateFormattingScore sampleResume
     = \<lparr>fmt_score = Num 20,
        issues = [''Resume content is too short'', ''Missing experience section'',
                  ''Missing education section'', ''Lacks strong action verbs'']\<rparr>"
  by code_simp

lemma sample_run:
  "calculateATSScore wordRegExp sampleTerms sampleResume sampleJob = Inr sampleResult"
  unfolding calculateATSScore_def Let_def
  by (simp add: sample_skills sample_experience sample_keywords sample_formatting
        generateSuggestions_def WEIGHTS_def sampleResult_def double_eval)

lemma tie_accepted:
  "\<forall>k\<in>set (keywords_list tieJob).
     wordRegExp (toLowerCase k) (toLowerCase (content tieResume)) \<noteq> None"
proof -
  have "list_all (\<lambda>k. wordRegExp (toLowerCase k) (toLowerCase (content tieResume)) \<noteq> None)
          (keywords_list tieJob)"
    by code_simp
  then show ?thesis by (simp add: list_all_iff)
qed

lemma sample_accepted:
  "\<forall>k\<in>set (keywords_list sampleJob).
     wordRegExp (toLowerCase k) (toLowerCase (content sampleResume)) \<noteq> None"
proof -
  have "list_all (\<lambda>k. wordRegExp (toLowerCase k) (toLowerCase (content sampleResume)) \<noteq> None)
          (keywords_list sampleJob)"
    by code_simp
  then show ?thesis by (simp add: list_all_iff)
qed

lemma weights_sum_in_doubles:
  "num_add (num_add (num_add (w_skills WEIGHTS) (w_experience WEIGHTS)) (w_keywords WEIGHTS))
     (w_formatting WEIGHTS) = Num (1 - 1 / 2 ^ 53)"
  by (simp add: WEIGHTS_def double_eval)

lemma weights_stored:
  "w_skills WEIGHTS = Num (3602879701896397 / 2 ^ 53)
   \<and> w_experience WEIGHTS = Num (5404319552844595 / 2 ^ 54)
   \<and> w_keywords WEIGHTS = Num (3602879701896397 / 2 ^ 54)
   \<and> w_formatting WEIGHTS = Num (3602879701896397 / 2 ^ 55)"
  by (simp add: WEIGHTS_def double_eval)

lemma tie_skills:
  "calculateSkillsScore tieResume tieJob
   = \<lparr>score = Num (3752999689475413 / 2 ^ 46), matched = [''react'', ''aws''],
      missing = [''gcp'']\<rparr>"
proof -
  have norm: "normalizeSkills (skills tieResume) = [''react'', ''aws'']
      \<and> normalizeSkills (requiredSkills tieJob) = [''react'', ''aws'', ''gcp'']
      \<and> normalizeSkills (preferredSkills tieJob) = []"
    by code_simp
  have req: "requiredLoop [''react'', ''aws''] [''react'', ''aws'', ''gcp''] ([], [])
      = ([''react'', ''aws''], [''gcp''])"
    by (simp add: someMatch_def skillsMatch_same far_pairs)
  have pref: "preferredLoop [''react'', ''aws''] [] (0, [''react'', ''aws''])
      = (0, [''react'', ''aws''])"
    by simp
  show ?thesis
    unfolding skills_eval [OF norm req pref]
    by (simp add: of_length_def double_eval)
qed

lemma tie_experience:
  "exp_score (calculateExperienceScore sampleTerms tieResume tieJob) = Num 50"
  by (rule experience_eval) code_simp

lemma tie_keywords:
  "calculateKeywordScore wordRegExp tieResume tieJob
     = Inr \<lparr>score = Num (8678811781911893 / 2 ^ 48), matched = [''docker''],
            missing = [''kubernetes'', ''terraform'', ''ansible'', ''jenkins'', ''python'',
                       ''golang'', ''rust'', ''java'', ''scala'', ''linux'', ''redis'']\<rparr>"
proof -
  have loop: "keywordLoop wordRegExp (toLowerCase (content tieResume))
      (map toLowerCase (keywords_list tieJob)) ([], [], 0)
      = Inr ([''docker''],
             [''kubernetes'', ''terraform'', ''ansible'', ''jenkins'', ''python'',
              ''golang'', ''rust'', ''java'', ''scala'', ''linux'', ''redis''], 10)"
    by code_simp
  have len: "length (keywords_list tieJob) = 12"
    by (simp add: tieJob_def)
  show ?thesis
    unfolding keyword_eval [OF loop len]
    by (simp add: of_length_def double_eval)
qed

lemma tie_formatting:
  "fmt_score (calculateFormattingScore tieResume) = Num 20"
  by code_simp

subsection \<open>The overall score\<close>

text \<open>
  C1 (as the code has it).  The engine returns whenever the regular expression engine
  accepts every keyword, and the overall score it returns is \<^verbatim>\<open>Math.round\<close>, applied
  once, of the weighted sum of the four component scores as the component functions
  return them, before they are rounded; the products and the sum are evaluated in
  double arithmetic, from left to right.  The weights are the doubles nearest to
  0.40, 0.30, 0.20 and 0.10: the decimal constants add up to 1, the sum of the four
  doubles in the arithmetic of the program is \<open>1 - 2\<^sup>-\<^sup>5\<^sup>3\<close>, printed
  \<^verbatim>\<open>0.9999999999999999\<close>.
\<close>

theorem overall_score_weighted_round:
  assumes "\<forall>k\<in>set (keywords_list job).
             re (toLowerCase k) (toLowerCase (content resume)) \<noteq> None"
  shows "\<exists>result ka.
           calculateATSScore re listTerms resume job = Inr result
         \<and> calculateKeywordScore re resume job = Inr ka
         \<and> overallScore result =
             Math_round
               (num_add
                  (num_add
                     (num_add
                        (num_mul (score (calculateSkillsScore resume job)) (double 0.40))
                        (num_mul (exp_score (calculateExperienceScore listTerms resume job))
                           (double 0.30)))
                     (num_mul (score ka) (double 0.20)))
                  (num_mul (fmt_score (calculateFormattingScore resume)) (double 0.10)))
         \<and> (0.40 + 0.30 + 0.20 + 0.10 :: real) = 1
         \<and> num_add
             (num_add (num_add (w_skills WEIGHTS) (w_experience WEIGHTS)) (w_keywords WEIGHTS))
             (w_formatting WEIGHTS)
           = Num (1 - 1 / 2 ^ 53)"
proof -
  from ats_returns [where re = re and job = job and resume = resume
        and listTerms = listTerms, OF assms]
  obtain result where
    run: "calculateATSScore re listTerms resume job = Inr result"
    by blast
  from run obtain ka where
    ka: "calculateKeywordScore re resume job = Inr ka"
    and ov: "overallScore result =
           Math_round
             (num_add
                (num_add
                   (num_add
                      (num_mul (score (calculateSkillsScore resume job)) (double 0.40))
                      (num_mul (exp_score (calculateExperienceScore listTerms resume job))
                         (double 0.30)))
                   (num_mul (score ka) (double 0.20)))
                (num_mul (fmt_score (calculateFormattingScore resume)) (double 0.10)))"
    by (rule ats_Inr)
  have decimal: "(0.40 + 0.30 + 0.20 + 0.10 :: real) = 1"
    by simp
  from run ka ov decimal weights_sum_in_doubles show ?thesis by blast
qed

text \<open>
  C1 as stated fails in its last part: the four weight constants of the program do
  not sum to exactly 1, neither in the arithmetic of the program nor as the real
  numbers they store, whose sum is \<open>1 + 2\<^sup>-\<^sup>5\<^sup>5\<close>.
\<close>

theorem weights_do_not_sum_to_one:
  "num_add (num_add (num_add (w_skills WEIGHTS) (w_experience WEIGHTS)) (w_keywords WEIGHTS))
     (w_formatting WEIGHTS) \<noteq> Num 1
   \<and> (\<exists>a b c d. w_skills WEIGHTS = Num a \<and> w_experience WEIGHTS = Num b
         \<and> w_keywords WEIGHTS = Num c \<and> w_formatting WEIGHTS = Num d
         \<and> a + b + c + d = 1 + 1 / 2 ^ 55)"
proof -
  have "num_add
          (num_add (num_add (w_skills WEIGHTS) (w_experience WEIGHTS)) (w_keywords WEIGHTS))
          (w_formatting WEIGHTS) \<noteq> Num 1"
    unfolding weights_sum_in_doubles by simp
  moreover have "(3602879701896397 / 2 ^ 53 + 5404319552844595 / 2 ^ 54
      + 3602879701896397 / 2 ^ 54 + 3602879701896397 / 2 ^ 55 :: real) = 1 + 1 / 2 ^ 55"
    by simp
  ultimately show ?thesis using weights_stored by blast
qed

text \<open>
  On the tie input the weighted sum is \<^verbatim>\<open>44.49999999999999\<close> and the overall score
  is 44, where the same expression over the reals is \<open>44.5\<close> and rounds to 45.  On the
  sample input the overall score is 36, where the rounded component scores 27, 50, 44
  and 20 would give 37.
\<close>

theorem overall_score_witness:
  "map_sum id overallScore (calculateATSScore wordRegExp sampleTerms tieResume tieJob)
     = Inr (Num 44)
   \<and> \<lfloor>(2 / 3 * 80 * 0.40 + 50 * 0.30 + (1 / 12 * 70 + 10 / 12 * 30) * 0.20 + 20 * 0.10 :: real)
        + 1 / 2\<rfloor> = 45
   \<and> map_sum id overallScore (calculateATSScore wordRegExp sampleTerms sampleResume sampleJob)
     = Inr (Num 36)
   \<and> map_sum id (\<lambda>r. [skillsScore r, experienceScore r, keywordScore r, formattingScore r])
       (calculateATSScore wordRegExp sampleTerms sampleResume sampleJob)
     = Inr [Num 27, Num 50, Num 44, Num 20]
   \<and> Math_round
       (num_add
          (num_add
             (num_add (num_mul (Num 27) (double 0.40)) (num_mul (Num 50) (double 0.30)))
             (num_mul (Num 44) (double 0.20)))
          (num_mul (Num 20) (double 0.10))) = Num 37"
proof -
  from overall_score_weighted_round
      [where re = wordRegExp and job = tieJob and resume = tieResume
        and listTerms = sampleTerms, OF tie_accepted]
  obtain result ka where
    run: "calculateATSScore wordRegExp sampleTerms tieResume tieJob = Inr result"
    and ka: "calculateKeywordScore wordRegExp tieResume tieJob = Inr ka"
    and ov: "overallScore result =
             Math_round
               (num_add
                  (num_add
                     (num_add
                        (num_mul (score (calculateSkillsScore tieResume tieJob)) (double 0.40))
                        (num_mul (exp_score (calculateExperienceScore sampleTerms tieResume tieJob))
                           (double 0.30)))
                     (num_mul (score ka) (double 0.20)))
                  (num_mul (fmt_score (calculateFormattingScore tieResume)) (double 0.10)))"
    by blast
  have k: "score ka = Num (8678811781911893 / 2 ^ 48)"
    using ka unfolding tie_keywords by auto
  have "overallScore result = Num 44"
    unfolding ov k tie_skills tie_experience tie_formatting
    by (simp add: double_eval)
  then have first:
    "map_sum id overallScore (calculateATSScore wordRegExp sampleTerms tieResume tieJob)
       = Inr (Num 44)"
    unfolding run by simp
  have exact:
    "\<lfloor>(2 / 3 * 80 * 0.40 + 50 * 0.30 + (1 / 12 * 70 + 10 / 12 * 30) * 0.20 + 20 * 0.10 :: real)
        + 1 / 2\<rfloor> = 45"
    by simp
  from overall_score_weighted_round
      [where re = wordRegExp and job = sampleJob and resume = sampleResume
        and listTerms = sampleTerms, OF sample_accepted]
  obtain result2 where
    run2: "calculateATSScore wordRegExp sampleTerms sampleResume sampleJob = Inr result2"
    by blast
  have sample:
    "map_sum id overallScore (calculateATSScore wordRegExp sampleTerms sampleResume sampleJob)
       = Inr (Num 36)"
    "map_sum id (\<lambda>r. [skillsScore r, experienceScore r, keywordScore r, formattingScore r])
       (calculateATSScore wordRegExp sampleTerms sampleResume sampleJob)
     = Inr [Num 27, Num 50, Num 44, Num 20]"
    unfolding sample_run by (simp_all add: sampleResult_def)
  have rounded: "Math_round
       (num_add
          (num_add
             (num_add (num_mul (Num 27) (double 0.40)) (num_mul (Num 50) (double 0.30)))
             (num_mul (Num 44) (double 0.20)))
          (num_mul (Num 20) (double 0.10))) = Num 37"
    by (simp add: double_eval)
  from first exact sample rounded show ?thesis by blast
qed

subsection \<open>Suggestions and skill lists\<close>

lemma issues_closed_form:
  "issues (calculateFormattingScore resume) =
     (if length (content resume) < 500 then [''Resume content is too short''] else [])
     @ (if skills resume = [] then [''Missing skills section''] else [])
     @ (if experience resume = [] then [''Missing experience section''] else [])
     @ (if education resume = [] then [''Missing education section''] else [])
     @ (if list_ex (\<lambda>word. includes_str (toLowerCase (content resume)) word) actionWords
        then [] else [''Lacks strong action verbs''])"
  unfolding calculateFormattingScore_def Let_def by simp

lemma issues_distinct: "distinct (issues (calculateFormattingScore resume))"
  unfolding issues_closed_form by simp

lemma issues_length: "length (issues (calculateFormattingScore resume)) \<le> 5"
  unfolding issues_closed_form by simp

lemma suggestions_closed_form:
  "generateSuggestions sa ea ka fa =
     (if num_lt (score sa) (Num 70) \<and> missing sa \<noteq> []
      then [''Add these critical skills: '' @ join '', '' (take 5 (missing sa))] else [])
     @ (if num_lt (exp_score ea) (Num 60)
        then [''Expand your experience descriptions to include more relevant keywords and achievements'']
        else [])
     @ (if num_lt (score ka) (Num 70) \<and> missing ka \<noteq> []
        then [''Include these important keywords: '' @ join '', '' (take 5 (missing ka))]
        else [])
     @ map (\<lambda>issue. ''Formatting: '' @ issue) (issues fa)
     @ (if num_ge (score sa) (Num 80) \<and> num_ge (score ka) (Num 80)
        then [''Excellent keyword optimization! Consider quantifying your achievements with metrics.'']
        else [])"
  unfolding generateSuggestions_def Let_def by simp

lemma suggestions_distinct:
  assumes "distinct (issues fa)"
  shows "distinct (generateSuggestions sa ea ka fa)"
proof -
  have formatting: "distinct (map ((@) ''Formatting: '') (issues fa))"
    using assms by (simp add: distinct_map inj_on_def)
  show ?thesis
    unfolding suggestions_closed_form by (auto simp: formatting)
qed

lemma suggestions_length:
  "length (generateSuggestions sa ea ka fa) \<le> 4 + length (issues fa)"
  unfolding suggestions_closed_form by simp

text \<open>
  C5.  The engine returns whenever the regular expression engine accepts every
  keyword, and in the result it returns no two suggestions are equal and there are at
  most ten of them.
\<close>

theorem suggestions_distinct_at_most_ten:
  assumes "\<forall>k\<in>set (keywords_list job).
             re (toLowerCase k) (toLowerCase (content resume)) \<noteq> None"
  shows "\<exists>result. calculateATSScore re listTerms resume job = Inr result
           \<and> distinct (suggestions result) \<and> length (suggestions result) \<le> 10"
proof -
  from ats_returns [where re = re and job = job and resume = resume
        and listTerms = listTerms, OF assms] obtain result where
    run: "calculateATSScore re listTerms resume job = Inr result"
    by blast
  from run obtain ka where
    sg: "suggestions result =
           generateSuggestions (calculateSkillsScore resume job)
             (calculateExperienceScore listTerms resume job) ka
             (calculateFormattingScore resume)"
    by (rule ats_Inr)
  have "distinct (suggestions result)"
    unfolding sg by (rule suggestions_distinct) (rule issues_distinct)
  moreover have "length (suggestions result) \<le> 10"
    unfolding sg
    using suggestions_length [of "calculateSkillsScore resume job"
        "calculateExperienceScore listTerms resume job" ka "calculateFormattingScore resume"]
      issues_length [of resume]
    by linarith
  ultimately show ?thesis using run by blast
qed

theorem suggestions_distinct_witness:
  "calculateATSScore wordRegExp sampleTerms sampleResume sampleJob = Inr sampleResult
   \<and> distinct (suggestions sampleResult) \<and> length (suggestions sampleResult) = 7"
  using suggestions_distinct_at_most_ten
      [where re = wordRegExp and job = sampleJob
        and resume = sampleResume and listTerms = sampleTerms, OF sample_accepted] sample_run
  by (simp add: sampleResult_def)

text \<open>
  C2 (as the code has it).  The engine returns whenever the regular expression
  engine accepts every keyword, and in the result \<^verbatim>\<open>missingSkills\<close> is the
  normalised required skills that match no resume skill, in input order, and
  \<^verbatim>\<open>matchedSkills\<close> is the normalised required skills that match, in input order,
  followed by the matching normalised preferred skills that are not required, each
  once.  The two lists are disjoint, every normalised required skill is in one of
  them, and every missing skill is a normalised required skill.
\<close>

theorem skill_lists_partition_normalised:
  assumes "\<forall>k\<in>set (keywords_list job).
             re (toLowerCase k) (toLowerCase (content resume)) \<noteq> None"
  shows "\<exists>result. calculateATSScore re listTerms resume job = Inr result
       \<and> missingSkills result
           = filter (\<lambda>s. \<not> someMatch (normalizeSkills (skills resume)) s)
               (normalizeSkills (requiredSkills job))
       \<and> (\<exists>extra.
             matchedSkills result
               = filter (someMatch (normalizeSkills (skills resume)))
                   (normalizeSkills (requiredSkills job)) @ extra
           \<and> distinct extra
           \<and> set extra = {s \<in> set (normalizeSkills (preferredSkills job)).
                           someMatch (normalizeSkills (skills resume)) s
                           \<and> s \<notin> set (normalizeSkills (requiredSkills job))})
       \<and> set (matchedSkills result) \<inter> set (missingSkills result) = {}
       \<and> set (normalizeSkills (requiredSkills job))
           \<subseteq> set (matchedSkills result) \<union> set (missingSkills result)
       \<and> set (missingSkills result) \<subseteq> set (normalizeSkills (requiredSkills job))"
proof -
  define rs where "rs = normalizeSkills (skills resume)"
  define req where "req = normalizeSkills (requiredSkills job)"
  define pref where "pref = normalizeSkills (preferredSkills job)"
  from ats_returns [where re = re and job = job and resume = resume
        and listTerms = listTerms, OF assms] obtain result where
    run: "calculateATSScore re listTerms resume job = Inr result"
    by blast
  from run obtain ka where
    m: "matchedSkills result = matched (calculateSkillsScore resume job)"
    and mi: "missingSkills result = missing (calculateSkillsScore resume job)"
    by (rule ats_Inr)
  from skills_lists [of resume job] obtain extra where
    1: "matchedSkills result = filter (someMatch rs) req @ extra"
    and 2: "distinct extra"
    and 3: "set extra = {s \<in> set pref. someMatch rs s \<and> s \<notin> set req}"
    and 4: "missingSkills result = filter (\<lambda>s. \<not> someMatch rs s) req"
    unfolding m mi rs_def req_def pref_def by blast
  have 5: "set (matchedSkills result) \<inter> set (missingSkills result) = {}"
    unfolding 1 4 using 3 by auto
  have 6: "set req \<subseteq> set (matchedSkills result) \<union> set (missingSkills result)"
    unfolding 1 4 by auto
  have 7: "set (missingSkills result) \<subseteq> set req"
    unfolding 4 by auto
  from run 1 2 3 4 5 6 7 show ?thesis
    unfolding rs_def req_def pref_def by blast
qed

lemma preferred_skills:
  "calculateSkillsScore preferredResume preferredJob
   = \<lparr>score = Num 100, matched = [''react'', ''docker''], missing = []\<rparr>"
proof -
  have norm: "normalizeSkills (skills preferredResume) = [''react'', ''docker'']
      \<and> normalizeSkills (requiredSkills preferredJob) = [''react'']
      \<and> normalizeSkills (preferredSkills preferredJob) = [''docker'']"
    by code_simp
  have req: "requiredLoop [''react'', ''docker''] [''react''] ([], []) = ([''react''], [])"
    by (simp add: someMatch_def skillsMatch_same)
  have pref: "preferredLoop [''react'', ''docker''] [''docker''] (0, [''react''])
      = (1, [''react'', ''docker''])"
    by (simp add: someMatch_def skillsMatch_same far_pairs)
  show ?thesis
    unfolding skills_eval [OF norm req pref]
    by (simp add: of_length_def double_eval)
qed

lemma preferred_accepted:
  "\<forall>k\<in>set (keywords_list preferredJob).
     wordRegExp (toLowerCase k) (toLowerCase (content preferredResume)) \<noteq> None"
proof -
  have "list_all
          (\<lambda>k. wordRegExp (toLowerCase k) (toLowerCase (content preferredResume)) \<noteq> None)
          (keywords_list preferredJob)"
    by code_simp
  then show ?thesis by (simp add: list_all_iff)
qed

text \<open>
  C2 as stated fails: with \<^verbatim>\<open>requiredSkills = ["React"]\<close> and a preferred skill on the
  resume, the matched list is \<^verbatim>\<open>["react", "docker"]\<close> and the missing list is empty, so
  the input \<^verbatim>\<open>"React"\<close> is in neither list and \<^verbatim>\<open>"docker"\<close>, which is not required, is
  listed.
\<close>

theorem preferred_skill_listed_as_matched:
  "map_sum id matchedSkills
     (calculateATSScore wordRegExp sampleTerms preferredResume preferredJob)
     = Inr [''react'', ''docker'']
   \<and> map_sum id missingSkills
     (calculateATSScore wordRegExp sampleTerms preferredResume preferredJob) = Inr []
   \<and> requiredSkills preferredJob = [''React'']"
proof -
  from ats_returns [where re = wordRegExp and job = preferredJob and resume = preferredResume
        and listTerms = sampleTerms, OF preferred_accepted]
  obtain result where
    run: "calculateATSScore wordRegExp sampleTerms preferredResume preferredJob = Inr result"
    by blast
  from run obtain ka where
    "matchedSkills result = matched (calculateSkillsScore preferredResume preferredJob)"
    and "missingSkills result = missing (calculateSkillsScore preferredResume preferredJob)"
    by (rule ats_Inr)
  then show ?thesis
    unfolding run preferred_skills by (simp add: preferredJob_def)
qed

theorem skill_lists_partition_witness:
  "calculateATSScore wordRegExp sampleTerms sampleResume sampleJob = Inr sampleResult
   \<and> missingSkills sampleResult = [''aws'', ''gcp'']
   \<and> matchedSkills sampleResult = [''react'']
   \<and> normalizeSkills (requiredSkills sampleJob) = [''react'', ''aws'', ''gcp'']
   \<and> set (matchedSkills sampleResult) \<inter> set (missingSkills sampleResult) = {}"
proof -
  have n: "normalizeSkills (requiredSkills sampleJob) = [''react'', ''aws'', ''gcp'']"
    by code_simp
  from skill_lists_partition_normalised
      [where re = wordRegExp and job = sampleJob
        and resume = sampleResume and listTerms = sampleTerms, OF sample_accepted]
  have "set (matchedSkills sampleResult) \<inter> set (missingSkills sampleResult) = {}"
    unfolding sample_run by auto
  with sample_run n show ?thesis
    by (simp add: sampleResult_def)
qed

subsection \<open>The keyword score\<close>

lemma num_add_NaN_right: "num_add x NaN = NaN"
  by (cases x) simp_all

lemma num_add_NaN_left: "num_add NaN x = NaN"
  by (cases x) simp_all

lemma num_mul_NaN_left: "num_mul NaN x = NaN"
  by (cases x) simp_all

text \<open>
  C3 (the code at the failing input).  With an empty keyword list the keyword score
  is \<^verbatim>\<open>NaN\<close>, not 0: the match ratio is guarded against the empty list, the density
  term \<^verbatim>\<open>densityScore / keywords.length * 30\<close> is not, and \<^verbatim>\<open>0 / 0\<close> is \<^verbatim>\<open>NaN\<close>.
\<close>

theorem empty_keywords_score_is_NaN:
  "calculateKeywordScore re resume (job\<lparr>keywords_list := []\<rparr>)
     = Inr \<lparr>score = NaN, matched = [], missing = []\<rparr>"
  unfolding calculateKeywordScore_def Let_def
  by (simp add: of_length_def num_add_NaN_right)

text \<open>
  C4 (the code at the failing input).  With an empty keyword list the overall score
  and the keyword score of the result are \<^verbatim>\<open>NaN\<close>, which is no number in \<open>[0, 100]\<close>.
\<close>

theorem empty_keywords_overall_is_NaN:
  "map_sum id (\<lambda>result. (overallScore result, keywordScore result))
     (calculateATSScore re listTerms resume (job\<lparr>keywords_list := []\<rparr>))
   = Inr (NaN, NaN)"
proof -
  have k: "calculateKeywordScore re resume (job\<lparr>keywords_list := []\<rparr>)
     = Inr \<lparr>score = NaN, matched = [], missing = []\<rparr>"
    unfolding calculateKeywordScore_def Let_def
    by (simp add: of_length_def num_add_NaN_right)
  show ?thesis
    unfolding calculateATSScore_def Let_def
    by (simp add: k num_add_NaN_right num_add_NaN_left num_mul_NaN_left)
qed













section \<open>Properties of the bullet-point analysis\<close>

text \<open>
  C9 (as the code has it).  The bullet score starts at 100 and loses 30 when the
  bullet pattern matches fewer than three times in the joined experience text, 25
  when no action cue occurs, 25 when no result cue occurs, 10 when no context cue
  occurs, 10 when some bullet line is longer than 150 code units, and 10 when more
  than half of the bullet lines are shorter than 30; the result is floored at 0.
\<close>

theorem bullet_score_penalties:
  fixes resume :: ParsedResume and joined :: utf16 and bullets :: "utf16 list"
  defines "joined \<equiv> join [10] (p_experience resume)"
  defines "bullets \<equiv>
             filter (\<lambda>l. startsWith (trimUnits l) [45] \<or> startsWith (trimUnits l) [8226])
               (splitLines joined)"
  shows "bp_score (analyzeBulletPoints resume) =
           Num (of_int (max 0
              (100
               - (if countBulletMatches True joined < 3 then 30 else 0)
               - (if testWords [''developed'', ''created'', ''implemented'', ''designed'',
                                ''built''] joined then 0 else 25)
               - (if testWords [''increased'', ''decreased'', ''improved'', ''reduced'',
                                ''achieved''] joined then 0 else 25)
               - (if testWords [''led'', ''managed'', ''coordinated'', ''oversaw''] joined
                  then 0 else 10)
               - (if 0 < length (filter (\<lambda>l. length l > 150) bullets) then 10 else 0)
               - (if real (length (filter (\<lambda>l. length l < 30) bullets))
                      > real (length bullets) / 2
                  then 10 else 0))))"
proof -
  define few where "few \<longleftrightarrow> countBulletMatches True joined < 3"
  define action where
    "action \<longleftrightarrow>
       testWords [''developed'', ''created'', ''implemented'', ''designed'', ''built''] joined"
  define outcome where
    "outcome \<longleftrightarrow>
       testWords [''increased'', ''decreased'', ''improved'', ''reduced'', ''achieved''] joined"
  define ctx where
    "ctx \<longleftrightarrow> testWords [''led'', ''managed'', ''coordinated'', ''oversaw''] joined"
  define long where "long \<longleftrightarrow> 0 < length (filter (\<lambda>l. length l > 150) bullets)"
  define short where
    "short \<longleftrightarrow>
       real (length (filter (\<lambda>l. length l < 30) bullets)) > real (length bullets) / 2"
  show ?thesis
    unfolding analyzeBulletPoints_def Let_def joined_def [symmetric] bullets_def [symmetric]
      few_def [symmetric] action_def [symmetric] outcome_def [symmetric]
      ctx_def [symmetric] long_def [symmetric] short_def [symmetric]
    by simp
qed

lemma lead_text:
  "join [10] (p_experience leadResume) =
     units ''- developed and led the billing platform team'' @ [10] @
     units ''- created and managed the release pipeline work'' @ [10] @
     units ''- designed and coordinated the data migration''"
  by (simp add: leadResume_def)

lemma lead_bullets: "countBulletMatches True (join [10] (p_experience leadResume)) = 3"
  unfolding lead_text
  by (simp add: units_def bulletMatch_def isSpaceUnit_def isBulletUnit_def isLineTerminator_def)

lemma lead_action:
  "testWords [''developed'', ''created'', ''implemented'', ''designed'', ''built'']
     (join [10] (p_experience leadResume))"
  unfolding lead_text by (simp add: testWords_def units_def asciiLower_def)

lemma lead_context:
  "testWords [''led'', ''managed'', ''coordinated'', ''oversaw'']
     (join [10] (p_experience leadResume))"
  unfolding lead_text by (simp add: testWords_def units_def asciiLower_def)

lemma lead_no_result:
  "\<not> testWords [''increased'', ''decreased'', ''improved'', ''reduced'', ''achieved'']
       (join [10] (p_experience leadResume))"
  unfolding lead_text by (simp add: testWords_def units_def asciiLower_def)

lemma lead_lines:
  "filter (\<lambda>l. startsWith (trimUnits l) [45] \<or> startsWith (trimUnits l) [8226])
     (splitLines (join [10] (p_experience leadResume)))
   = [units ''- developed and led the billing platform team'',
      units ''- created and managed the release pipeline work'',
      units ''- designed and coordinated the data migration'']"
  unfolding lead_text by (simp add: units_def trimUnits_def isSpaceUnit_def)

lemma lead_lengths:
  "map length
     [units ''- developed and led the billing platform team'',
      units ''- created and managed the release pipeline work'',
      units ''- designed and coordinated the data migration''] = [45, 47, 45]"
  by (simp add: units_def)

text \<open>
  C9 as stated fails: the claim takes 10 for missing result cues and 25 for missing
  context cues.  On three well-formed bullets with action and context cues and no
  result cue the code scores 75, the claimed penalties give 90.
\<close>

theorem result_cue_penalty_is_25:
  "bp_score (analyzeBulletPoints leadResume) = Num 75
   \<and> specBulletScore leadResume = 90"
proof -
  have code: "bp_score (analyzeBulletPoints leadResume) = Num 75"
    unfolding analyzeBulletPoints_def Let_def
    using lead_lengths
    by (simp add: lead_bullets lead_action lead_context lead_no_result lead_lines)
  have spec: "specBulletScore leadResume = 90"
    unfolding specBulletScore_def Let_def
    using lead_lengths
    by (simp add: lead_bullets lead_action lead_context lead_no_result lead_lines)
  from code spec show ?thesis by blast
qed

theorem bullet_score_witness:
  "bp_score (analyzeBulletPoints terseResume) = Num 0
   \<and> countBulletMatches True (join [10] (p_experience terseResume)) = 0
   \<and> map length (splitLines (join [10] (p_experience terseResume))) = [2, 2, 152]"
proof -
  have t: "join [10] (p_experience terseResume)
             = units ''-x'' @ [10] @ units ''-y'' @ [10] @
               units (''-'' @ ''zzzzzzzzzzzzzzzzzzzzzzzzzzzzzzzzzzzzzzzzzzzzzzzzzz'' @
              ''zzzzzzzzzzzzzzzzzzzzzzzzzzzzzzzzzzzzzzzzzzzzzzzzzz'' @
              ''zzzzzzzzzzzzzzzzzzzzzzzzzzzzzzzzzzzzzzzzzzzzzzzzzz'' @ ''z'')"
    by (simp add: terseResume_def)
  have few: "countBulletMatches True (join [10] (p_experience terseResume)) = 0"
    unfolding t
    by (simp add: units_def bulletMatch_def isSpaceUnit_def isBulletUnit_def
        isLineTerminator_def)
  have no_action:
    "\<not> testWords [''developed'', ''created'', ''implemented'', ''designed'', ''built'']
         (join [10] (p_experience terseResume))"
    unfolding t by (simp add: testWords_def units_def asciiLower_def)
  have no_result:
    "\<not> testWords [''increased'', ''decreased'', ''improved'', ''reduced'', ''achieved'']
         (join [10] (p_experience terseResume))"
    unfolding t by (simp add: testWords_def units_def asciiLower_def)
  have no_context:
    "\<not> testWords [''led'', ''managed'', ''coordinated'', ''oversaw'']
         (join [10] (p_experience terseResume))"
    unfolding t by (simp add: testWords_def units_def asciiLower_def)
  have lines: "splitLines (join [10] (p_experience terseResume))
                 = [units ''-x'', units ''-y'',
                    units (''-'' @ ''zzzzzzzzzzzzzzzzzzzzzzzzzzzzzzzzzzzzzzzzzzzzzzzzzz'' @
              ''zzzzzzzzzzzzzzzzzzzzzzzzzzzzzzzzzzzzzzzzzzzzzzzzzz'' @
              ''zzzzzzzzzzzzzzzzzzzzzzzzzzzzzzzzzzzzzzzzzzzzzzzzzz'' @ ''z'')]"
    unfolding t by (simp add: units_def)
  have bullets:
    "filter (\<lambda>l. startsWith (trimUnits l) [45] \<or> startsWith (trimUnits l) [8226])
       [units ''-x'', units ''-y'',
        units (''-'' @ ''zzzzzzzzzzzzzzzzzzzzzzzzzzzzzzzzzzzzzzzzzzzzzzzzzz'' @
              ''zzzzzzzzzzzzzzzzzzzzzzzzzzzzzzzzzzzzzzzzzzzzzzzzzz'' @
              ''zzzzzzzzzzzzzzzzzzzzzzzzzzzzzzzzzzzzzzzzzzzzzzzzzz'' @ ''z'')]
     = [units ''-x'', units ''-y'',
        units (''-'' @ ''zzzzzzzzzzzzzzzzzzzzzzzzzzzzzzzzzzzzzzzzzzzzzzzzzz'' @
              ''zzzzzzzzzzzzzzzzzzzzzzzzzzzzzzzzzzzzzzzzzzzzzzzzzz'' @
              ''zzzzzzzzzzzzzzzzzzzzzzzzzzzzzzzzzzzzzzzzzzzzzzzzzz'' @ ''z'')]"
    by (simp add: units_def trimUnits_def isSpaceUnit_def)
  have lengths:
    "map length
       [units ''-x'', units ''-y'',
        units (''-'' @ ''zzzzzzzzzzzzzzzzzzzzzzzzzzzzzzzzzzzzzzzzzzzzzzzzzz'' @
              ''zzzzzzzzzzzzzzzzzzzzzzzzzzzzzzzzzzzzzzzzzzzzzzzzzz'' @
              ''zzzzzzzzzzzzzzzzzzzzzzzzzzzzzzzzzzzzzzzzzzzzzzzzzz'' @ ''z'')] = [2, 2, 152]"
    by (simp add: units_def)
  have "bp_score (analyzeBulletPoints terseResume) = Num 0"
    using bullet_score_penalties [of terseResume] lengths
    unfolding lines bullets
    by (simp add: few no_action no_result no_context)
  with few lines lengths show ?thesis by simp
qed

section \<open>Properties of the skill scan\<close>

lemma startsWith_iff: "startsWith xs p \<longleftrightarrow> (\<exists>r. xs = p @ r)"
  by (induction xs p rule: startsWith.induct) auto

lemma includes_str_iff: "includes_str xs p \<longleftrightarrow> (\<exists>a b. xs = a @ p @ b)"
proof (induction xs)
  case Nil
  then show ?case by auto
next
  case (Cons x xs)
  show ?case
  proof
    assume "includes_str (x # xs) p"
    then consider "startsWith (x # xs) p" | "includes_str xs p" by auto
    then show "\<exists>a b. x # xs = a @ p @ b"
    proof cases
      case 1
      then obtain r where "x # xs = p @ r" unfolding startsWith_iff ..
      then have "x # xs = [] @ p @ r" by simp
      then show ?thesis by blast
    next
      case 2
      with Cons.IH obtain a b where "xs = a @ p @ b" by blast
      then have "x # xs = (x # a) @ p @ b" by simp
      then show ?thesis by blast
    qed
  next
    assume "\<exists>a b. x # xs = a @ p @ b"
    then obtain a b where ab: "x # xs = a @ p @ b" by blast
    show "includes_str (x # xs) p"
    proof (cases a)
      case Nil
      with ab have "startsWith (x # xs) p" unfolding startsWith_iff by auto
      then show ?thesis by simp
    next
      case (Cons y ys)
      with ab have "xs = ys @ p @ b" by simp
      with Cons.IH have "includes_str xs p" by blast
      then show ?thesis by simp
    qed
  qed
qed

lemma includes_str_map:
  assumes "includes_str xs p"
  shows "includes_str (map f xs) (map f p)"
proof -
  from assms obtain a b where "xs = a @ p @ b" unfolding includes_str_iff by blast
  then have "map f xs = map f a @ map f p @ map f b" by simp
  then show ?thesis unfolding includes_str_iff by blast
qed

lemma includes_str_trans:
  assumes "includes_str xs p" and "includes_str p q"
  shows "includes_str xs q"
proof -
  from assms obtain a b c d where "xs = a @ p @ b" and "p = c @ q @ d"
    unfolding includes_str_iff by blast
  then have "xs = (a @ c) @ q @ (d @ b)" by simp
  then show ?thesis unfolding includes_str_iff by blast
qed

lemma set_set_add: "set (set_add x xs) = insert x (set xs)"
  by (auto simp: set_add_def)

lemma set_fold_set_add: "set (fold set_add xs acc) = set xs \<union> set acc"
  by (induction xs arbitrary: acc) (auto simp: set_set_add)

lemma set_scan:
  "set (fold (\<lambda>skill skills.
                if includes_str lowerContent (toLowerCase skill) then set_add skill skills
                else skills)
             cs acc)
   = set acc \<union> {skill \<in> set cs. includes_str lowerContent (toLowerCase skill)}"
  by (induction cs arbitrary: acc) (auto simp: set_set_add)

lemma set_extractSkills:
  "set (extractSkills sectionSkills input)
   = set (sectionSkills input)
     \<union> {skill \<in> set commonSkills.
          includes_str (toLowerCase input) (toLowerCase skill)}"
  unfolding extractSkills_def Let_def set_scan set_fold_set_add
  by simp

lemma java_in_javascript: "includes_str (toLowerCase ''JavaScript'') (toLowerCase ''Java'')"
  by code_simp

lemma ai_in_maintain: "includes_str (toLowerCase ''maintain'') (toLowerCase ''AI'')"
  by code_simp

lemma java_common: "''Java'' \<in> set commonSkills"
  by (simp add: commonSkills_def)

lemma ai_common: "''AI'' \<in> set commonSkills"
  by (simp add: commonSkills_def)

text \<open>
  C10.  The scan for well-known skills is a raw substring test on the lower-cased
  text: every vocabulary skill whose lower-cased name occurs anywhere in the
  lower-cased content is returned, so any content containing \<^verbatim>\<open>JavaScript\<close> yields
  \<^verbatim>\<open>Java\<close> and any content containing \<^verbatim>\<open>maintain\<close> yields \<^verbatim>\<open>AI\<close>.  The returned set is
  exactly the section skills together with those vocabulary skills.
\<close>

theorem wellknown_scan_is_substring_test:
  "(\<forall>skill\<in>set commonSkills.
      includes_str (toLowerCase input) (toLowerCase skill)
      \<longrightarrow> skill \<in> set (extractSkills sectionSkills input))
   \<and> (includes_str input ''JavaScript''
        \<longrightarrow> ''Java'' \<in> set (extractSkills sectionSkills input))
   \<and> (includes_str input ''maintain''
        \<longrightarrow> ''AI'' \<in> set (extractSkills sectionSkills input))
   \<and> set (extractSkills sectionSkills input)
       = set (sectionSkills input)
         \<union> {skill \<in> set commonSkills.
              includes_str (toLowerCase input) (toLowerCase skill)}"
proof -
  have general: "\<forall>skill\<in>set commonSkills.
      includes_str (toLowerCase input) (toLowerCase skill)
      \<longrightarrow> skill \<in> set (extractSkills sectionSkills input)"
    unfolding set_extractSkills by blast
  have java: "''Java'' \<in> set (extractSkills sectionSkills input)"
    if "includes_str input ''JavaScript''"
  proof -
    from that have "includes_str (toLowerCase input) (toLowerCase ''JavaScript'')"
      unfolding toLowerCase_def by (rule includes_str_map)
    then have "includes_str (toLowerCase input) (toLowerCase ''Java'')"
      using java_in_javascript by (rule includes_str_trans)
    with java_common show ?thesis unfolding set_extractSkills by blast
  qed
  have ai: "''AI'' \<in> set (extractSkills sectionSkills input)"
    if "includes_str input ''maintain''"
  proof -
    from that have "includes_str (toLowerCase input) (toLowerCase ''maintain'')"
      unfolding toLowerCase_def by (rule includes_str_map)
    then have "includes_str (toLowerCase input) (toLowerCase ''AI'')"
      using ai_in_maintain by (rule includes_str_trans)
    with ai_common show ?thesis unfolding set_extractSkills by blast
  qed
  from general java ai set_extractSkills [of sectionSkills input] show ?thesis by blast
qed

lemma maintain_scan:
  "extractSkills noSections ''We maintain JavaScript services''
     = [''JavaScript'', ''Java'', ''AI'']"
  by code_simp

theorem wellknown_scan_witness:
  "includes_str ''We maintain JavaScript services'' ''JavaScript''
   \<and> includes_str ''We maintain JavaScript services'' ''maintain''
   \<and> ''Java'' \<in> set (extractSkills noSections ''We maintain JavaScript services'')
   \<and> ''AI'' \<in> set (extractSkills noSections ''We maintain JavaScript services'')
   \<and> extractSkills noSections ''We maintain JavaScript services''
       = [''JavaScript'', ''Java'', ''AI'']"
proof -
  have 1: "includes_str ''We maintain JavaScript services'' ''JavaScript''"
    by code_simp
  have 2: "includes_str ''We maintain JavaScript services'' ''maintain''"
    by code_simp
  from wellknown_scan_is_substring_test [of "''We maintain JavaScript services''" noSections]
    1 2 maintain_scan
  show ?thesis by blast
qed

end
